theory Spec2Isabelle
  imports Complex_Main "HOL-Library.Word" "HOL-Library.Multiset"
begin

section \<open>Results and errors\<close>

text \<open>
  \<^verbatim>\<open>init\<close> of \<^verbatim>\<open>openage/init.cpp\<close> contains no \<^verbatim>\<open>throw\<close> of its own; every failure
  comes out of a collaborator it calls. The error values are the conditions the
  specification names: \<open>InvalidTerrainId\<close> of \<^verbatim>\<open>set_tile\<close>, the fatal
  \<open>ConfigurationError\<close> (a malformed or missing file) and the fatal \<open>DriverError\<close>
  (compile or link failure, unresolved name). \<open>UndefinedBehaviour\<close> marks a read that C
  leaves undefined: of the array \<^verbatim>\<open>terrain_data\<close> outside its 20 by 20 bounds, and,
  in \<^verbatim>\<open>destroy\<close>, of a texture array through a null pointer or past its end.
\<close>

datatype error = InvalidTerrainId | ConfigurationError | DriverError | UndefinedBehaviour

text \<open>Sequencing of fallible steps: an error of the first step ends the run, as an
  exception leaving \<^verbatim>\<open>init\<close> does.\<close>

definition bind_result :: "error + 'a \<Rightarrow> ('a \<Rightarrow> error + 'b) \<Rightarrow> error + 'b" where
  "bind_result m f = (case m of Inl e \<Rightarrow> Inl e | Inr x \<Rightarrow> f x)"

section \<open>Terrain: \<^verbatim>\<open>engine/terrain.h\<close>\<close>

text \<open>\<^verbatim>\<open>coord::tile\<close>, the position \<^verbatim>\<open>init\<close> writes as \<^verbatim>\<open>{0, 0}\<close> and steps through its
  fields \<^verbatim>\<open>ne\<close> and \<^verbatim>\<open>se\<close>, which it compares with an \<^verbatim>\<open>int\<close>.\<close>

record tile =
  ne :: int
  se :: int

text \<open>Modelled from the spec: \<^verbatim>\<open>engine::TerrainType\<close> is declared in
  \<^verbatim>\<open>engine/terrain.h\<close>, which is not among the sources. The specification's
  TerrainTypeRecord is \<open>{id, texture_ref, blend_priority}\<close>; the texture reference
  plays no part in any property stated here and is left out.\<close>

record terrain_type =
  terrain_id :: int
  blend_priority :: int

text \<open>Modelled from the spec: \<^verbatim>\<open>engine::BlendingMode\<close>, likewise absent; only the
  number of loaded records is used.\<close>

record blending_mode =
  mode_id :: int

text \<open>Modelled from the spec: the Blend Priority Resolver, "stable sort terrain-type
  ids by descending blend_priority; equal-priority entries retain table order". The
  records are inserted from the last table row to the first; each goes in front of the
  first record whose priority is not greater than its own, so it stays ahead of the
  equal-priority rows that follow it in the table.\<close>

fun insert_by_priority :: "terrain_type \<Rightarrow> terrain_type list \<Rightarrow> terrain_type list" where
  "insert_by_priority t [] = [t]"
| "insert_by_priority t (u # us) =
     (if blend_priority u \<le> blend_priority t then t # u # us
      else u # insert_by_priority t us)"

fun sort_by_priority :: "terrain_type list \<Rightarrow> terrain_type list" where
  "sort_by_priority [] = []"
| "sort_by_priority (t # ts) = insert_by_priority t (sort_by_priority ts)"

definition blend_priority_resolver :: "terrain_type list \<Rightarrow> int list" where
  "blend_priority_resolver terrain_types = map terrain_id (sort_by_priority terrain_types)"

text \<open>Modelled from the spec: the class \<^verbatim>\<open>engine::Terrain\<close>. The TerrainGrid "owns an
  N by N array of tiles, each tile holding a resolved terrain-type reference and its
  position"; a cell that no \<^verbatim>\<open>set_tile\<close> has reached yet holds no reference
  (\<open>None\<close>). The grid is built from the two tables and their counts, and the
  PriorityOrdering is derived from the terrain-type table.\<close>

record terrain =
  side_length :: nat
  terrain_type_count :: nat
  blending_mode_count :: nat
  tiles :: "tile \<Rightarrow> int option"
  priority_ordering :: "int list"

text \<open>Modelled from the spec: the constructor
  \<^verbatim>\<open>Terrain(size, ttype_count, terrain_types, bmode_count, blending_modes)\<close>.\<close>

definition new_terrain ::
  "nat \<Rightarrow> nat \<Rightarrow> terrain_type list \<Rightarrow> nat \<Rightarrow> blending_mode list \<Rightarrow> terrain" where
  "new_terrain n ttype_count terrain_types bmode_count blending_modes =
     \<lparr>side_length = n, terrain_type_count = ttype_count,
      blending_mode_count = bmode_count, tiles = (\<lambda>pos. None),
      priority_ordering = blend_priority_resolver terrain_types\<rparr>"

text \<open>Modelled from the spec: \<^verbatim>\<open>Terrain::get_size\<close>, the side length fixed at
  construction.\<close>

definition get_size :: "terrain \<Rightarrow> nat" where
  "get_size t = side_length t"

definition on_grid :: "terrain \<Rightarrow> tile \<Rightarrow> bool" where
  "on_grid t pos \<longleftrightarrow>
     0 \<le> ne pos \<and> ne pos < int (side_length t) \<and> 0 \<le> se pos \<and> se pos < int (side_length t)"

text \<open>Modelled from the spec: \<^verbatim>\<open>Terrain::set_tile(position, terrain_type_id)\<close>, "which
  fails with an InvalidTerrainId condition if the id is outside the loaded table's
  range" \<open>[0, terrain_type_count)\<close>. The result pairs the outcome of the call with the
  terrain as the call leaves it, so that a failing call's effect on the grid is
  visible. The specification gives no outcome for a position off the grid; the model
  stores nothing there.\<close>

definition set_tile :: "tile \<Rightarrow> int \<Rightarrow> terrain \<Rightarrow> (error + unit) \<times> terrain" where
  "set_tile pos texid t =
     (if texid < 0 \<or> int (terrain_type_count t) \<le> texid then (Inl InvalidTerrainId, t)
      else if on_grid t pos then (Inr (), t\<lparr>tiles := (tiles t)(pos := Some texid)\<rparr>)
      else (Inr (), t))"

section \<open>The tile matrix: \<^verbatim>\<open>terrain_data\<close>, lines 28 to 49\<close>

definition terrain_data :: "nat list list" where
  "terrain_data =
   [[ 7,  7,  7,  7,  7,  7,  7,  7,  7,  7,  7,  7,  7,  7,  7,  7,  7,  7,  7,  7],
    [ 7,  7,  7,  7,  7,  7,  7,  7,  7,  7,  7,  7,  7,  7,  7,  7,  7,  7,  7,  7],
    [ 7,  7,  7,  7,  7,  7,  7,  7,  7,  7,  7,  7,  7,  7,  7,  7,  7,  7,  7,  7],
    [ 7,  7,  7,  7,  7,  7,  7,  7,  7,  7,  7,  7, 11, 11, 11,  7,  7,  7,  7,  7],
    [ 7,  7,  7,  7,  7,  7,  7,  7,  7,  7,  7,  7, 11, 11, 11, 11, 11,  7,  7,  7],
    [ 7,  7, 20, 20, 20,  7,  7,  7,  7,  7,  7,  7, 11, 11, 11, 11, 11, 11,  7,  7],
    [ 7,  7, 20,  7,  7, 20, 20,  7,  7,  7,  7,  7, 11, 11, 11, 11, 11,  7,  7,  7],
    [ 7,  7, 20,  7,  7,  7,  7,  7,  7,  7,  7,  7, 11, 11, 11,  7,  7,  7,  7,  7],
    [ 7, 20, 20, 20,  7,  7,  7,  7,  7,  7,  7,  7,  7,  7,  7,  7,  7,  7,  7,  7],
    [ 7,  7, 20,  7,  7,  7,  7,  7,  7,  7,  7,  7,  7,  7,  7,  7,  7,  7,  7,  7],
    [ 7,  7, 20,  7,  7,  7,  9,  9,  7,  7,  7,  7,  7,  7,  7,  7,  7,  7,  7,  7],
    [ 7,  7,  7,  7,  7,  7,  9,  9,  7,  7,  7,  7,  7,  7,  7,  7,  7,  7,  7,  7],
    [ 7,  7,  7,  7, 13,  7,  9,  7,  7, 12, 12,  7,  7,  7,  7,  7,  7,  7,  7,  7],
    [ 7,  7,  7,  7, 13,  9,  9,  7, 12,  7,  7,  7,  7,  7,  7,  7,  7,  7,  7,  7],
    [ 7,  7,  7,  7, 13,  7,  7,  7, 12,  7,  7,  7,  7, 17, 17, 17,  7,  7,  7,  7],
    [ 7,  7,  7,  7, 13,  7,  7,  7, 12,  7,  7,  7,  7, 18, 18, 18,  7,  7,  7,  7],
    [ 7,  7, 12, 12, 12, 12, 12, 12, 12,  7,  7,  7,  7, 19, 19, 19,  7,  7,  7,  7],
    [ 7,  7,  7,  7,  7,  7,  7,  7,  7,  7,  7,  7,  7,  3,  3,  3,  7,  7,  7,  7],
    [ 7,  7,  7,  7,  7,  7,  7,  7,  7,  7,  7,  7,  7,  3,  3,  3,  3, 14, 14,  7],
    [ 7,  7,  7,  7,  7,  7,  7,  7,  7,  7,  7,  7,  7,  7,  7,  3,  3,  7,  7,  7]]"

text \<open>The read \<^verbatim>\<open>terrain_data[pos.ne][pos.se]\<close>: inside the array it yields the entry,
  outside it the C program has no defined value.\<close>

definition terrain_data_at :: "int \<Rightarrow> int \<Rightarrow> nat option" where
  "terrain_data_at i j =
     (if 0 \<le> i \<and> i < 20 \<and> 0 \<le> j \<and> j < 20 then Some (terrain_data ! nat i ! nat j) else None)"

section \<open>Player colours: \<^verbatim>\<open>player_color_line\<close>, lines 80 to 100\<close>

text \<open>The struct \<^verbatim>\<open>player_color_line\<close> with the field \<^verbatim>\<open>idx\<close> of its base
  \<^verbatim>\<open>csv_line_data\<close>; all five are read with \<^verbatim>\<open>%u\<close> into \<^verbatim>\<open>unsigned int\<close>. The
  channels \<^verbatim>\<open>r\<close>, \<^verbatim>\<open>g\<close>, \<^verbatim>\<open>b\<close>, \<^verbatim>\<open>a\<close> are named \<open>col_r\<close> to \<open>col_a\<close> here.\<close>

record player_color_line =
  idx :: "32 word"
  col_r :: "32 word"
  col_g :: "32 word"
  col_b :: "32 word"
  col_a :: "32 word"

text \<open>The C library's \<^verbatim>\<open>sscanf\<close>, as far as the format \<^verbatim>\<open>"%u=%u,%u,%u,%u"\<close> needs it.
  A \<^verbatim>\<open>%u\<close> skips white space, takes an optional sign and then at least one decimal
  digit; a character of the format must be met exactly. The result is the list of
  the values converted before the first mismatch, whose length is what \<^verbatim>\<open>sscanf\<close>
  returns. A value beyond 32 bits is kept modulo \<open>2 ^ 32\<close> (C leaves it undefined).\<close>

definition isspace :: "char \<Rightarrow> bool" where
  "isspace c \<longleftrightarrow> c \<in> set [CHR '' '', CHR 0x09, CHR 0x0A, CHR 0x0B, CHR 0x0C, CHR 0x0D]"

definition isdigit :: "char \<Rightarrow> bool" where
  "isdigit c \<longleftrightarrow> c \<in> set ''0123456789''"

definition digit_value :: "char \<Rightarrow> nat" where
  "digit_value c = of_char c - 48"

definition decimal_value :: "string \<Rightarrow> nat" where
  "decimal_value ds = foldl (\<lambda>n c. 10 * n + digit_value c) 0 ds"

definition scan_uint :: "string \<Rightarrow> (32 word \<times> string) option" where
  "scan_uint s =
     (let s1 = dropWhile isspace s;
          negative = (s1 \<noteq> [] \<and> hd s1 = CHR ''-'');
          s2 = (if s1 \<noteq> [] \<and> (hd s1 = CHR ''-'' \<or> hd s1 = CHR ''+'') then tl s1 else s1);
          ds = takeWhile isdigit s2;
          v = (word_of_nat (decimal_value ds) :: 32 word)
      in if ds = [] then None
         else Some (if negative then - v else v, dropWhile isdigit s2))"

datatype directive = Conv_u | Literal char

fun sscanf :: "directive list \<Rightarrow> string \<Rightarrow> 32 word list" where
  "sscanf [] s = []"
| "sscanf (Conv_u # ds) s =
     (case scan_uint s of None \<Rightarrow> [] | Some (v, rest) \<Rightarrow> v # sscanf ds rest)"
| "sscanf (Literal c # ds) s =
     (case s of [] \<Rightarrow> [] | x # xs \<Rightarrow> if x = c then sscanf ds xs else [])"

definition player_color_format :: "directive list" where
  "player_color_format =
     [Conv_u, Literal (CHR ''=''), Conv_u, Literal (CHR '',''), Conv_u, Literal (CHR '',''),
      Conv_u, Literal (CHR '',''), Conv_u]"

text \<open>\<^verbatim>\<open>player_color_line::fill\<close>: the converted values are stored into \<^verbatim>\<open>idx\<close>, \<^verbatim>\<open>r\<close>,
  \<^verbatim>\<open>g\<close>, \<^verbatim>\<open>b\<close>, \<^verbatim>\<open>a\<close> in this order; the result is 0 when all five were converted and
  \<open>-1\<close> otherwise. Nothing in it looks at the value of \<^verbatim>\<open>idx\<close>.\<close>

definition fill :: "string \<Rightarrow> player_color_line \<Rightarrow> int \<times> player_color_line" where
  "fill by_line this =
     (let vs = sscanf player_color_format by_line;
          stores = [(\<lambda>v l. l\<lparr>idx := v\<rparr>), (\<lambda>v l. l\<lparr>col_r := v\<rparr>), (\<lambda>v l. l\<lparr>col_g := v\<rparr>),
                    (\<lambda>v l. l\<lparr>col_b := v\<rparr>), (\<lambda>v l. l\<lparr>col_a := v\<rparr>)];
          this' = foldl (\<lambda>l (store, v). store v l) this (zip stores vs)
      in (if length vs = 5 then 0 else - 1, this'))"

text \<open>Modelled from the spec: \<^verbatim>\<open>engine::util::read_csv_file\<close> of
  \<^verbatim>\<open>engine/util/file.h\<close>, which is not among the sources. The tabular record
  loader hands every line to the record's \<^verbatim>\<open>fill\<close>, and "malformed lines fail the
  whole load". A record starts out zeroed; a successful \<^verbatim>\<open>fill\<close> overwrites all
  five fields.\<close>

definition fill_line :: "string \<Rightarrow> player_color_line option" where
  "fill_line by_line =
     (case fill by_line \<lparr>idx = 0, col_r = 0, col_g = 0, col_b = 0, col_a = 0\<rparr> of
        (ret, l) \<Rightarrow> if ret = 0 then Some l else None)"

fun fill_lines :: "string list \<Rightarrow> player_color_line list option" where
  "fill_lines [] = Some []"
| "fill_lines (by_line # rest) =
     (case fill_line by_line of
        None \<Rightarrow> None
      | Some l \<Rightarrow> (case fill_lines rest of None \<Rightarrow> None | Some ls \<Rightarrow> Some (l # ls)))"

text \<open>The conversion loop, lines 107 to 114. A \<^verbatim>\<open>GLfloat\<close> is modelled as a real
  number: the quotient is the exact one, the rounding to single precision is not
  modelled. The entry at position \<open>i\<close> of the loaded file is written to the four
  cells from \<open>i * 4\<close> on.\<close>

definition normalize :: "32 word \<Rightarrow> real" where
  "normalize c = real (unat c) / 255"

function convert_loop ::
  "nat \<Rightarrow> nat \<Rightarrow> player_color_line list \<Rightarrow> real list \<Rightarrow> real list" where
  "convert_loop i pcolor_count player_color_file playercolors =
     (if i < pcolor_count then
        (let line = player_color_file ! i in
         convert_loop (i + 1) pcolor_count player_color_file
           (playercolors[i * 4 := normalize (col_r line),
                         i * 4 + 1 := normalize (col_g line),
                         i * 4 + 2 := normalize (col_b line),
                         i * 4 + 3 := normalize (col_a line)]))
      else playercolors)"
  by pat_completeness auto

termination
  by (relation "measure (\<lambda>(i, pcolor_count, file, buf). pcolor_count - i)") auto

declare convert_loop.simps [simp del]

text \<open>\<^verbatim>\<open>new GLfloat[pcolor_count*4]\<close> followed by the loop. The fresh array is not
  initialised in C; the loop writes every cell of it, so its first contents (zero
  here) never show.\<close>

definition convert_player_colors :: "player_color_line list \<Rightarrow> real list" where
  "convert_player_colors player_color_file =
     convert_loop 0 (length player_color_file) player_color_file
       (replicate (length player_color_file * 4) 0)"

section \<open>The calls \<^verbatim>\<open>init\<close> and \<^verbatim>\<open>destroy\<close> make\<close>

datatype texture_var = Gaben | University

datatype shader_stage = GL_VERTEX_SHADER | GL_FRAGMENT_SHADER

datatype shader_unit =
  Plaintexture_vert | Plaintexture_frag | Teamcolor_frag | Alphamask_vert | Alphamask_frag

datatype program_id = Texture_shader | Teamcolor_shader | Alphamask_shader

datatype hook = On_input | On_engine_tick | On_drawgame | On_drawhud

datatype callback = Input_handler | On_engine_tick_handler | Draw_method | Hud_draw_method

text \<open>Every call to a collaborator (texture factory, record loader, terrain, file
  reader, shader and program objects, the graphics driver, the callback lists) and
  every \<^verbatim>\<open>delete\<close> is recorded, in the order of execution.\<close>

datatype event =
    NewTexture texture_var string bool
  | ReadCsvFile string
  | NewTerrain nat nat nat
  | SetTile tile int
  | NewFloatArray nat
  | ReadWholeFile string
  | NewShader shader_unit shader_stage string
  | DeleteCode string
  | NewProgram program_id shader_unit shader_unit
  | Link program_id
  | GetUniformId program_id string
  | GetAttributeId program_id string
  | Use program_id
  | StopUsing program_id
  | GlUniform1i int int
  | GlUniform1f int real
  | GlUniform4fv int nat "real list"
  | DeleteFloatArray
  | DeleteShader shader_unit
  | PushBack hook callback
  | DeleteTexture texture_var
  | DeleteProgram program_id
  | DeleteTerrainTexture nat
  | DeleteBlendingTexture nat
  | DeleteTerrainPriorityList

text \<open>The world \<^verbatim>\<open>init\<close> runs in: what the files hold and what the graphics driver
  answers. \<open>None\<close> stands for a file that is missing or malformed, and for a name
  the linked program does not know.\<close>

record env =
  terrain_meta_file :: "terrain_type list option"
  blending_meta_file :: "blending_mode list option"
  player_color_palette :: "string list option"
  shader_source :: "string \<Rightarrow> string option"
  compiles :: "shader_stage \<Rightarrow> string \<Rightarrow> bool"
  links :: "program_id \<Rightarrow> bool"
  uniform_location :: "program_id \<Rightarrow> string \<Rightarrow> int option"
  attribute_location :: "program_id \<Rightarrow> string \<Rightarrow> int option"

text \<open>The module's state that the properties below speak of: the global \<^verbatim>\<open>terrain\<close>,
  the loop bounds of \<^verbatim>\<open>destroy\<close> (\<^verbatim>\<open>terrain_texture_count\<close> is declared outside
  \<^verbatim>\<open>init.cpp\<close>, \<^verbatim>\<open>blend_mode_count\<close> at line 24), the record of calls, and the two
  pointers \<^verbatim>\<open>Texture **terrain_textures, **blending_textures\<close> of line 21. A pointer
  is \<open>None\<close> when it is null and otherwise holds the array it points to, one
  texture handle per entry.\<close>

record state =
  terrain :: terrain
  terrain_texture_count :: nat
  blend_mode_count :: nat
  log :: "event list"
  terrain_textures :: "nat list option"
  blending_textures :: "nat list option"

text \<open>The state before \<^verbatim>\<open>init\<close>: \<^verbatim>\<open>unsigned int blend_mode_count = 9\<close>, "hardcoded for
  now"; the terrain is not built yet; the two array pointers, defined at namespace
  scope without an initialiser, are null. No line of \<^verbatim>\<open>init.cpp\<close> assigns either
  pointer or either count.\<close>

definition initial_state :: "nat \<Rightarrow> state" where
  "initial_state texture_count =
     \<lparr>terrain = new_terrain 0 0 [] 0 [], terrain_texture_count = texture_count,
      blend_mode_count = 9, log = [], terrain_textures = None, blending_textures = None\<rparr>"

definition emit :: "event list \<Rightarrow> state \<Rightarrow> state" where
  "emit es s = s\<lparr>log := log s @ es\<rparr>"

text \<open>Modelled from the spec: the call \<^verbatim>\<open>engine::util::read_csv_file<T>(&rows, fname)\<close>
  (\<^verbatim>\<open>engine/util/file.h\<close>, not among the sources). \<open>file\<close> is what the loader makes of
  the file, \<open>None\<close> when the file is missing or a line of it is malformed, which
  is a fatal ConfigurationError; otherwise the rows are returned, and their number is
  the count.\<close>

definition read_csv_file :: "'a list option \<Rightarrow> string \<Rightarrow> state \<Rightarrow> error + ('a list \<times> state)" where
  "read_csv_file file fname s =
     (case file of
        None \<Rightarrow> Inl ConfigurationError
      | Some rows \<Rightarrow> Inr (rows, emit [ReadCsvFile fname] s))"

text \<open>What the loader makes of the palette file: every line goes through
  \<^verbatim>\<open>player_color_line::fill\<close>.\<close>

definition player_color_rows :: "env \<Rightarrow> player_color_line list option" where
  "player_color_rows env =
     (case player_color_palette env of None \<Rightarrow> None | Some lines \<Rightarrow> fill_lines lines)"

text \<open>Modelled from the spec: \<^verbatim>\<open>util::read_whole_file\<close> and the constructor of
  \<^verbatim>\<open>shader::Shader\<close> (both outside \<^verbatim>\<open>init.cpp\<close>), in the three lines \<^verbatim>\<open>init\<close> has
  for each unit: read the source text, compile it, \<^verbatim>\<open>delete[]\<close> the text. "Missing
  file is fatal"; "compilation failure is fatal".\<close>

definition load_shader ::
  "env \<Rightarrow> shader_unit \<Rightarrow> shader_stage \<Rightarrow> string \<Rightarrow> state \<Rightarrow> error + state" where
  "load_shader env unit stage fname s =
     (case shader_source env fname of
        None \<Rightarrow> Inl ConfigurationError
      | Some code \<Rightarrow>
          if compiles env stage code
          then Inr (emit [ReadWholeFile fname, NewShader unit stage code, DeleteCode fname] s)
          else Inl DriverError)"

text \<open>Modelled from the spec: \<^verbatim>\<open>shader::Program::link\<close>; "link failure is fatal".\<close>

definition link :: "env \<Rightarrow> program_id \<Rightarrow> state \<Rightarrow> error + state" where
  "link env p s = (if links env p then Inr (emit [Link p] s) else Inl DriverError)"

text \<open>Modelled from the spec: \<^verbatim>\<open>shader::Program::get_uniform_id\<close> and
  \<^verbatim>\<open>get_attribute_id\<close>, the lookup of a name in the linked program; "an unresolved
  name is a fatal configuration error".\<close>

definition get_uniform_id :: "env \<Rightarrow> program_id \<Rightarrow> string \<Rightarrow> state \<Rightarrow> error + (int \<times> state)" where
  "get_uniform_id env p name s =
     (case uniform_location env p name of
        None \<Rightarrow> Inl ConfigurationError
      | Some loc \<Rightarrow> Inr (loc, emit [GetUniformId p name] s))"

definition get_attribute_id :: "env \<Rightarrow> program_id \<Rightarrow> string \<Rightarrow> state \<Rightarrow> error + (int \<times> state)" where
  "get_attribute_id env p name s =
     (case attribute_location env p name of
        None \<Rightarrow> Inl ConfigurationError
      | Some loc \<Rightarrow> Inr (loc, emit [GetAttributeId p name] s))"

section \<open>\<^verbatim>\<open>init\<close>, lines 51 to 195\<close>

text \<open>Lines 53 to 58: the two standalone textures, \<^verbatim>\<open>new Texture("gaben.png")\<close> and
  \<^verbatim>\<open>new Texture(..., true, PLAYERCOLORED)\<close>. The specification names no failure of the
  texture factory.\<close>

definition init_textures :: "state \<Rightarrow> state" where
  "init_textures s =
     emit [NewTexture Gaben ''gaben.png'' False,
           NewTexture University ''age/raw/Data/graphics.drs/3836.slp.png'' True] s"

text \<open>Lines 72 to 77, the inner loop: \<^verbatim>\<open>for (pos.se = 0; pos.se < (int) terrain->get_size(); pos.se++)\<close>
  from the current \<^verbatim>\<open>pos.se\<close> on. \<^verbatim>\<open>int texid = terrain_data[pos.ne][pos.se]\<close> is read,
  then \<^verbatim>\<open>terrain->set_tile(pos, texid)\<close> is called; its failure leaves \<^verbatim>\<open>init\<close>.\<close>

function sweep_se :: "tile \<Rightarrow> state \<Rightarrow> error + state" where
  "sweep_se pos s =
     (if se pos < int (get_size (terrain s)) then
        (case terrain_data_at (ne pos) (se pos) of
           None \<Rightarrow> Inl UndefinedBehaviour
         | Some texid \<Rightarrow>
             (case set_tile pos (int texid) (terrain s) of
                (Inl e, t) \<Rightarrow> Inl e
              | (Inr u, t) \<Rightarrow>
                  sweep_se (pos\<lparr>se := se pos + 1\<rparr>)
                    (emit [SetTile pos (int texid)] (s\<lparr>terrain := t\<rparr>))))
      else Inr s)"
  by pat_completeness auto

termination
  by (relation "measure (\<lambda>(pos, s). nat (int (get_size (terrain s)) - se pos))")
     (auto simp: set_tile_def get_size_def emit_def split: if_splits)

declare sweep_se.simps [simp del]

text \<open>Lines 71 to 77, the outer loop: \<^verbatim>\<open>for (; pos.ne < (int) terrain->get_size(); pos.ne++)\<close>.
  The inner loop starts by setting \<^verbatim>\<open>pos.se = 0\<close>. The loop terminates because the
  inner loop leaves the side length as it is; this is proved with the properties of
  the model below.\<close>

function sweep_ne :: "tile \<Rightarrow> state \<Rightarrow> error + state" where
  "sweep_ne pos s =
     (if ne pos < int (get_size (terrain s)) then
        (case sweep_se (pos\<lparr>se := 0\<rparr>) s of
           Inl e \<Rightarrow> Inl e
         | Inr s' \<Rightarrow> sweep_ne (pos\<lparr>ne := ne pos + 1\<rparr>) s')
      else Inr s)"
  by pat_completeness auto

text \<open>Lines 60 to 77: the two metadata tables are loaded, the terrain is built with
  side length 20 and the counts the loader returned, and the tile matrix is swept
  from \<^verbatim>\<open>pos = {0, 0}\<close>.\<close>

definition init_terrain :: "env \<Rightarrow> state \<Rightarrow> error + state" where
  "init_terrain env s0 =
     bind_result (read_csv_file (terrain_meta_file env) ''age/processed/terrain_meta.docx'' s0)
       (\<lambda>(terrain_types, s1).
     bind_result (read_csv_file (blending_meta_file env) ''age/processed/blending_meta.docx'' s1)
       (\<lambda>(blending_modes, s2).
     let ttype_count = length terrain_types;
         bmode_count = length blending_modes;
         s3 = emit [NewTerrain 20 ttype_count bmode_count]
                (s2\<lparr>terrain := new_terrain 20 ttype_count terrain_types bmode_count blending_modes\<rparr>)
     in sweep_ne \<lparr>ne = 0, se = 0\<rparr> s3))"

text \<open>Lines 104 to 114: the palette is loaded, the staging array of
  \<^verbatim>\<open>pcolor_count*4\<close> floats is allocated and filled. The result is the array
  \<^verbatim>\<open>playercolors\<close>.\<close>

definition init_player_colors :: "env \<Rightarrow> state \<Rightarrow> error + (real list \<times> state)" where
  "init_player_colors env s0 =
     bind_result (read_csv_file (player_color_rows env) ''age/processed/player_color_palette.pal'' s0)
       (\<lambda>(player_color_file, s1).
     let pcolor_count = length player_color_file
     in Inr (convert_player_colors player_color_file,
             emit [NewFloatArray (pcolor_count * 4)] s1))"

text \<open>Lines 120 to 138: the five shader sources are read and compiled.\<close>

definition init_shader_units :: "env \<Rightarrow> state \<Rightarrow> error + state" where
  "init_shader_units env s0 =
     bind_result (load_shader env Plaintexture_vert GL_VERTEX_SHADER ''shaders/maptexture.vert.glsl'' s0)
       (\<lambda>s1.
     bind_result (load_shader env Plaintexture_frag GL_FRAGMENT_SHADER ''shaders/maptexture.frag.glsl'' s1)
       (\<lambda>s2.
     bind_result (load_shader env Teamcolor_frag GL_FRAGMENT_SHADER ''shaders/teamcolors.frag.glsl'' s2)
       (\<lambda>s3.
     bind_result (load_shader env Alphamask_vert GL_VERTEX_SHADER ''shaders/alphamask.vert.glsl'' s3)
       (\<lambda>s4.
     load_shader env Alphamask_frag GL_FRAGMENT_SHADER ''shaders/alphamask.frag.glsl'' s4))))"

text \<open>Lines 143 to 149: the program for plain textures.\<close>

definition init_texture_shader :: "env \<Rightarrow> state \<Rightarrow> error + state" where
  "init_texture_shader env s0 =
     bind_result (link env Texture_shader
                    (emit [NewProgram Texture_shader Plaintexture_vert Plaintexture_frag] s0))
       (\<lambda>s1.
     bind_result (get_uniform_id env Texture_shader ''texture'' s1)
       (\<lambda>(texture, s2).
     bind_result (get_attribute_id env Texture_shader ''tex_coordinates'' s2)
       (\<lambda>(tex_coord, s3).
     Inr (emit [Use Texture_shader, GlUniform1i texture 0, StopUsing Texture_shader] s3))))"

text \<open>Lines 154 to 167: the team-colour program; \<^verbatim>\<open>glUniform4fv\<close> is handed the count
  64 and the array \<^verbatim>\<open>playercolors\<close>, which is deleted after \<^verbatim>\<open>stopusing\<close>.\<close>

definition init_teamcolor_shader :: "env \<Rightarrow> real list \<Rightarrow> state \<Rightarrow> error + state" where
  "init_teamcolor_shader env playercolors s0 =
     bind_result (link env Teamcolor_shader
                    (emit [NewProgram Teamcolor_shader Plaintexture_vert Teamcolor_frag] s0))
       (\<lambda>s1.
     bind_result (get_uniform_id env Teamcolor_shader ''texture'' s1)
       (\<lambda>(texture, s2).
     bind_result (get_attribute_id env Teamcolor_shader ''tex_coordinates'' s2)
       (\<lambda>(tex_coord, s3).
     bind_result (get_uniform_id env Teamcolor_shader ''player_number'' s3)
       (\<lambda>(player_id_var, s4).
     bind_result (get_uniform_id env Teamcolor_shader ''alpha_marker'' s4)
       (\<lambda>(alpha_marker_var, s5).
     bind_result (get_uniform_id env Teamcolor_shader ''player_color'' s5)
       (\<lambda>(player_color_var, s6).
     Inr (emit [Use Teamcolor_shader,
                GlUniform1i texture 0,
                GlUniform1f alpha_marker_var (254 / 255),
                GlUniform4fv player_color_var 64 playercolors,
                StopUsing Teamcolor_shader,
                DeleteFloatArray] s6)))))))"

text \<open>Lines 171 to 181: the alpha-mask program.\<close>

definition init_alphamask_shader :: "env \<Rightarrow> state \<Rightarrow> error + state" where
  "init_alphamask_shader env s0 =
     bind_result (link env Alphamask_shader
                    (emit [NewProgram Alphamask_shader Alphamask_vert Alphamask_frag] s0))
       (\<lambda>s1.
     bind_result (get_attribute_id env Alphamask_shader ''base_tex_coordinates'' s1)
       (\<lambda>(base_coord, s2).
     bind_result (get_attribute_id env Alphamask_shader ''mask_tex_coordinates'' s2)
       (\<lambda>(mask_coord, s3).
     bind_result (get_uniform_id env Alphamask_shader ''show_mask'' s3)
       (\<lambda>(show_mask, s4).
     bind_result (get_uniform_id env Alphamask_shader ''base_texture'' s4)
       (\<lambda>(base_texture, s5).
     bind_result (get_uniform_id env Alphamask_shader ''mask_texture'' s5)
       (\<lambda>(mask_texture, s6).
     Inr (emit [Use Alphamask_shader,
                GlUniform1i base_texture 0,
                GlUniform1i mask_texture 1,
                StopUsing Alphamask_shader] s6)))))))"

text \<open>Lines 184 to 188: "after linking, the shaders are no longer necessary".\<close>

definition delete_shader_units :: "state \<Rightarrow> state" where
  "delete_shader_units s =
     emit [DeleteShader Plaintexture_vert, DeleteShader Plaintexture_frag,
           DeleteShader Teamcolor_frag, DeleteShader Alphamask_vert,
           DeleteShader Alphamask_frag] s"

text \<open>Lines 117 to 188, the shader initialisation as a whole.\<close>

definition init_shaders :: "env \<Rightarrow> real list \<Rightarrow> state \<Rightarrow> error + state" where
  "init_shaders env playercolors s0 =
     bind_result (init_shader_units env s0) (\<lambda>s1.
     bind_result (init_texture_shader env s1) (\<lambda>s2.
     bind_result (init_teamcolor_shader env playercolors s2) (\<lambda>s3.
     bind_result (init_alphamask_shader env s3) (\<lambda>s4.
     Inr (delete_shader_units s4)))))"

text \<open>Lines 191 to 194: the four callbacks are appended to the engine's lists
  \<^verbatim>\<open>on_input\<close>, \<^verbatim>\<open>on_engine_tick\<close>, \<^verbatim>\<open>on_drawgame\<close> and \<^verbatim>\<open>on_drawhud\<close>.\<close>

definition init_callbacks :: "state \<Rightarrow> state" where
  "init_callbacks s =
     emit [PushBack On_input Input_handler,
           PushBack On_engine_tick On_engine_tick_handler,
           PushBack On_drawgame Draw_method,
           PushBack On_drawhud Hud_draw_method] s"

text \<open>\<^verbatim>\<open>init\<close>: the blocks in the order of the source. An error of a block ends the
  run; there is no handler in \<^verbatim>\<open>init\<close>.\<close>

definition init :: "env \<Rightarrow> state \<Rightarrow> error + state" where
  "init env s0 =
     bind_result (init_terrain env (init_textures s0)) (\<lambda>s1.
     bind_result (init_player_colors env s1) (\<lambda>(playercolors, s2).
     bind_result (init_shaders env playercolors s2) (\<lambda>s3.
     Inr (init_callbacks s3))))"

section \<open>\<^verbatim>\<open>destroy\<close>, lines 197 to 213\<close>

text \<open>The loop \<^verbatim>\<open>for (unsigned int i = 0; i < bound; i++) delete array[i]\<close>, lines 206
  to 211, with the global pointer \<open>array_of\<close> it reads and the event that stands for
  the deletion of entry \<open>i\<close>. Reading \<^verbatim>\<open>array[i]\<close> through a null pointer, or past the
  end of the array, is where the run stops; the result pairs the outcome with the
  state at that point.\<close>

function delete_loop ::
  "(nat \<Rightarrow> event) \<Rightarrow> (state \<Rightarrow> nat list option) \<Rightarrow> nat \<Rightarrow> nat \<Rightarrow> state \<Rightarrow>
     (error + unit) \<times> state" where
  "delete_loop entry array_of i bound s =
     (if i < bound then
        (case array_of s of
           None \<Rightarrow> (Inl UndefinedBehaviour, s)
         | Some textures \<Rightarrow>
             if i < length textures
             then delete_loop entry array_of (i + 1) bound (emit [entry i] s)
             else (Inl UndefinedBehaviour, s))
      else (Inr (), s))"
  by pat_completeness auto

termination
  by (relation "measure (\<lambda>(entry, array_of, i, bound, s). bound - i)") auto

declare delete_loop.simps [simp del]

text \<open>\<^verbatim>\<open>destroy\<close>: the two textures, the three programs, the loop over
  \<^verbatim>\<open>terrain_textures\<close> up to \<^verbatim>\<open>terrain_texture_count\<close>, the loop over
  \<^verbatim>\<open>blending_textures\<close> up to \<^verbatim>\<open>blend_mode_count\<close>, and \<^verbatim>\<open>delete[] terrain_priority_list\<close>,
  which is reached only when both loops ran to their end.\<close>

definition destroy :: "state \<Rightarrow> (error + unit) \<times> state" where
  "destroy s0 =
     (let s1 = emit [DeleteTexture Gaben, DeleteTexture University,
                     DeleteProgram Texture_shader, DeleteProgram Teamcolor_shader,
                     DeleteProgram Alphamask_shader] s0
      in case delete_loop DeleteTerrainTexture terrain_textures 0 (terrain_texture_count s1) s1 of
           (Inl e, s2) \<Rightarrow> (Inl e, s2)
         | (Inr u, s2) \<Rightarrow>
             (case delete_loop DeleteBlendingTexture blending_textures 0 (blend_mode_count s2) s2 of
                (Inl e, s3) \<Rightarrow> (Inl e, s3)
              | (Inr v, s3) \<Rightarrow> (Inr (), emit [DeleteTerrainPriorityList] s3)))"

section \<open>The expected outcome of a run\<close>

text \<open>The terrain id the tile matrix gives a position, the calls of one row of the sweep
  from a column on, the calls of the sweep from a row on, and the grid these leave.\<close>

definition texid_at :: "tile \<Rightarrow> int" where
  "texid_at pos = int (terrain_data ! nat (ne pos) ! nat (se pos))"

definition row_calls :: "int \<Rightarrow> int \<Rightarrow> event list" where
  "row_calls i j = map (\<lambda>b. SetTile \<lparr>ne = i, se = b\<rparr> (texid_at \<lparr>ne = i, se = b\<rparr>)) [j..19]"

definition swept_row :: "int \<Rightarrow> int \<Rightarrow> terrain \<Rightarrow> terrain" where
  "swept_row i j t =
     t\<lparr>tiles := (\<lambda>p. if ne p = i \<and> j \<le> se p \<and> se p < 20 then Some (texid_at p) else tiles t p)\<rparr>"

definition grid_calls :: "int \<Rightarrow> event list" where
  "grid_calls i = concat (map (\<lambda>a. row_calls a 0) [i..19])"

definition swept_from :: "int \<Rightarrow> terrain \<Rightarrow> terrain" where
  "swept_from i t =
     t\<lparr>tiles := (\<lambda>p. if i \<le> ne p \<and> ne p < 20 \<and> 0 \<le> se p \<and> se p < 20
                      then Some (texid_at p) else tiles t p)\<rparr>"

definition built_terrain :: "terrain_type list \<Rightarrow> blending_mode list \<Rightarrow> terrain" where
  "built_terrain terrain_types blending_modes =
     swept_from 0 (new_terrain 20 (length terrain_types) terrain_types
                     (length blending_modes) blending_modes)"

text \<open>What the shader initialisation needs of the world, and the calls it makes then.
  \<open>shader_code\<close> and \<open>uniform_id\<close> read the world where the file and the name exist.\<close>

definition shader_code :: "env \<Rightarrow> string \<Rightarrow> string" where
  "shader_code env fname = (case shader_source env fname of None \<Rightarrow> [] | Some code \<Rightarrow> code)"

definition uniform_id :: "env \<Rightarrow> program_id \<Rightarrow> string \<Rightarrow> int" where
  "uniform_id env p name = (case uniform_location env p name of None \<Rightarrow> - 1 | Some loc \<Rightarrow> loc)"

definition unit_trace :: "env \<Rightarrow> shader_unit \<Rightarrow> shader_stage \<Rightarrow> string \<Rightarrow> event list" where
  "unit_trace env unit stage fname =
     [ReadWholeFile fname, NewShader unit stage (shader_code env fname), DeleteCode fname]"

definition unit_ok :: "env \<Rightarrow> shader_stage \<Rightarrow> string \<Rightarrow> bool" where
  "unit_ok env stage fname \<longleftrightarrow>
     (case shader_source env fname of None \<Rightarrow> False | Some code \<Rightarrow> compiles env stage code)"

definition resolves :: "(string \<Rightarrow> int option) \<Rightarrow> string list \<Rightarrow> bool" where
  "resolves table names \<longleftrightarrow> list_all (\<lambda>name. table name \<noteq> None) names"

definition shaders_ok :: "env \<Rightarrow> bool" where
  "shaders_ok env \<longleftrightarrow>
     unit_ok env GL_VERTEX_SHADER ''shaders/maptexture.vert.glsl'' \<and>
     unit_ok env GL_FRAGMENT_SHADER ''shaders/maptexture.frag.glsl'' \<and>
     unit_ok env GL_FRAGMENT_SHADER ''shaders/teamcolors.frag.glsl'' \<and>
     unit_ok env GL_VERTEX_SHADER ''shaders/alphamask.vert.glsl'' \<and>
     unit_ok env GL_FRAGMENT_SHADER ''shaders/alphamask.frag.glsl'' \<and>
     links env Texture_shader \<and> links env Teamcolor_shader \<and> links env Alphamask_shader \<and>
     resolves (uniform_location env Texture_shader) [''texture''] \<and>
     resolves (attribute_location env Texture_shader) [''tex_coordinates''] \<and>
     resolves (uniform_location env Teamcolor_shader)
       [''texture'', ''player_number'', ''alpha_marker'', ''player_color''] \<and>
     resolves (attribute_location env Teamcolor_shader) [''tex_coordinates''] \<and>
     resolves (attribute_location env Alphamask_shader)
       [''base_tex_coordinates'', ''mask_tex_coordinates''] \<and>
     resolves (uniform_location env Alphamask_shader)
       [''show_mask'', ''base_texture'', ''mask_texture'']"

definition units_trace :: "env \<Rightarrow> event list" where
  "units_trace env =
     unit_trace env Plaintexture_vert GL_VERTEX_SHADER ''shaders/maptexture.vert.glsl'' @
     unit_trace env Plaintexture_frag GL_FRAGMENT_SHADER ''shaders/maptexture.frag.glsl'' @
     unit_trace env Teamcolor_frag GL_FRAGMENT_SHADER ''shaders/teamcolors.frag.glsl'' @
     unit_trace env Alphamask_vert GL_VERTEX_SHADER ''shaders/alphamask.vert.glsl'' @
     unit_trace env Alphamask_frag GL_FRAGMENT_SHADER ''shaders/alphamask.frag.glsl''"

definition texture_shader_trace :: "env \<Rightarrow> event list" where
  "texture_shader_trace env =
     [NewProgram Texture_shader Plaintexture_vert Plaintexture_frag,
      Link Texture_shader,
      GetUniformId Texture_shader ''texture'',
      GetAttributeId Texture_shader ''tex_coordinates'',
      Use Texture_shader,
      GlUniform1i (uniform_id env Texture_shader ''texture'') 0,
      StopUsing Texture_shader]"

definition teamcolor_shader_trace :: "env \<Rightarrow> real list \<Rightarrow> event list" where
  "teamcolor_shader_trace env playercolors =
     [NewProgram Teamcolor_shader Plaintexture_vert Teamcolor_frag,
      Link Teamcolor_shader,
      GetUniformId Teamcolor_shader ''texture'',
      GetAttributeId Teamcolor_shader ''tex_coordinates'',
      GetUniformId Teamcolor_shader ''player_number'',
      GetUniformId Teamcolor_shader ''alpha_marker'',
      GetUniformId Teamcolor_shader ''player_color'',
      Use Teamcolor_shader,
      GlUniform1i (uniform_id env Teamcolor_shader ''texture'') 0,
      GlUniform1f (uniform_id env Teamcolor_shader ''alpha_marker'') (254 / 255),
      GlUniform4fv (uniform_id env Teamcolor_shader ''player_color'') 64 playercolors,
      StopUsing Teamcolor_shader,
      DeleteFloatArray]"

definition alphamask_shader_trace :: "env \<Rightarrow> event list" where
  "alphamask_shader_trace env =
     [NewProgram Alphamask_shader Alphamask_vert Alphamask_frag,
      Link Alphamask_shader,
      GetAttributeId Alphamask_shader ''base_tex_coordinates'',
      GetAttributeId Alphamask_shader ''mask_tex_coordinates'',
      GetUniformId Alphamask_shader ''show_mask'',
      GetUniformId Alphamask_shader ''base_texture'',
      GetUniformId Alphamask_shader ''mask_texture'',
      Use Alphamask_shader,
      GlUniform1i (uniform_id env Alphamask_shader ''base_texture'') 0,
      GlUniform1i (uniform_id env Alphamask_shader ''mask_texture'') 1,
      StopUsing Alphamask_shader]"

definition release_trace :: "event list" where
  "release_trace =
     [DeleteShader Plaintexture_vert, DeleteShader Plaintexture_frag,
      DeleteShader Teamcolor_frag, DeleteShader Alphamask_vert, DeleteShader Alphamask_frag]"

definition shader_trace :: "env \<Rightarrow> real list \<Rightarrow> event list" where
  "shader_trace env playercolors =
     units_trace env @ texture_shader_trace env @ teamcolor_shader_trace env playercolors @
     alphamask_shader_trace env @ release_trace"

text \<open>The calls of the other steps, and of a whole run of \<^verbatim>\<open>init\<close> that loaded the given
  tables.\<close>

definition texture_trace :: "event list" where
  "texture_trace =
     [NewTexture Gaben ''gaben.png'' False,
      NewTexture University ''age/raw/Data/graphics.drs/3836.slp.png'' True]"

definition metadata_trace :: "event list" where
  "metadata_trace =
     [ReadCsvFile ''age/processed/terrain_meta.docx'',
      ReadCsvFile ''age/processed/blending_meta.docx'']"

definition grid_trace :: "nat \<Rightarrow> nat \<Rightarrow> event list" where
  "grid_trace ttype_count bmode_count = NewTerrain 20 ttype_count bmode_count # grid_calls 0"

definition player_color_trace :: "nat \<Rightarrow> event list" where
  "player_color_trace pcolor_count =
     [ReadCsvFile ''age/processed/player_color_palette.pal'', NewFloatArray (pcolor_count * 4)]"

definition callback_trace :: "event list" where
  "callback_trace =
     [PushBack On_input Input_handler,
      PushBack On_engine_tick On_engine_tick_handler,
      PushBack On_drawgame Draw_method,
      PushBack On_drawhud Hud_draw_method]"

definition init_trace ::
  "env \<Rightarrow> terrain_type list \<Rightarrow> blending_mode list \<Rightarrow> player_color_line list \<Rightarrow> event list" where
  "init_trace env terrain_types blending_modes player_color_file =
     texture_trace @ metadata_trace @
     grid_trace (length terrain_types) (length blending_modes) @
     player_color_trace (length player_color_file) @
     shader_trace env (convert_player_colors player_color_file) @
     callback_trace"

text \<open>The conditions under which \<^verbatim>\<open>init\<close> runs to its end: both metadata tables
  load, the terrain-type table has more than 20 rows (the tile matrix uses the id
  20), every palette line parses, and the shader initialisation meets no failure.\<close>

definition env_ok :: "env \<Rightarrow> bool" where
  "env_ok env \<longleftrightarrow>
     (case terrain_meta_file env of None \<Rightarrow> False | Some tt \<Rightarrow> 20 < length tt) \<and>
     blending_meta_file env \<noteq> None \<and> player_color_rows env \<noteq> None \<and> shaders_ok env"

text \<open>The calls of a \<^verbatim>\<open>destroy\<close> that runs to its end, for given loop bounds.\<close>

definition teardown_trace :: "nat \<Rightarrow> nat \<Rightarrow> event list" where
  "teardown_trace texture_count mode_count =
     [DeleteTexture Gaben, DeleteTexture University,
      DeleteProgram Texture_shader, DeleteProgram Teamcolor_shader,
      DeleteProgram Alphamask_shader] @
     map DeleteTerrainTexture [0..<texture_count] @
     map DeleteBlendingTexture [0..<mode_count] @
     [DeleteTerrainPriorityList]"

text \<open>The shader units' and programs' creations, links and deletions of a run.\<close>

definition lifecycle_trace :: "env \<Rightarrow> event list" where
  "lifecycle_trace env =
     [NewShader Plaintexture_vert GL_VERTEX_SHADER (shader_code env ''shaders/maptexture.vert.glsl''),
      NewShader Plaintexture_frag GL_FRAGMENT_SHADER (shader_code env ''shaders/maptexture.frag.glsl''),
      NewShader Teamcolor_frag GL_FRAGMENT_SHADER (shader_code env ''shaders/teamcolors.frag.glsl''),
      NewShader Alphamask_vert GL_VERTEX_SHADER (shader_code env ''shaders/alphamask.vert.glsl''),
      NewShader Alphamask_frag GL_FRAGMENT_SHADER (shader_code env ''shaders/alphamask.frag.glsl''),
      NewProgram Texture_shader Plaintexture_vert Plaintexture_frag,
      Link Texture_shader,
      NewProgram Teamcolor_shader Plaintexture_vert Teamcolor_frag,
      Link Teamcolor_shader,
      NewProgram Alphamask_shader Alphamask_vert Alphamask_frag,
      Link Alphamask_shader,
      DeleteShader Plaintexture_vert,
      DeleteShader Plaintexture_frag,
      DeleteShader Teamcolor_frag,
      DeleteShader Alphamask_vert,
      DeleteShader Alphamask_frag]"

text \<open>The four floats of an entry, and the vector of four that a table holds at a slot.\<close>

definition quad :: "player_color_line \<Rightarrow> real list" where
  "quad line = [normalize (col_r line), normalize (col_g line),
                normalize (col_b line), normalize (col_a line)]"

definition normalized :: "player_color_line \<Rightarrow> real \<times> real \<times> real \<times> real" where
  "normalized line = (normalize (col_r line), normalize (col_g line),
                      normalize (col_b line), normalize (col_a line))"

definition slot :: "real list \<Rightarrow> nat \<Rightarrow> (real \<times> real \<times> real \<times> real) option" where
  "slot table k =
     (if k * 4 + 3 < length table
      then Some (table ! (k * 4), table ! (k * 4 + 1), table ! (k * 4 + 2), table ! (k * 4 + 3))
      else None)"

section \<open>Reading the record of calls\<close>



fun is_set_tile :: "event \<Rightarrow> bool" where
  "is_set_tile (SetTile pos texid) = True"
| "is_set_tile e = False"

text \<open>The calls that change or use the graphics driver's current program.\<close>

fun gl_state_event :: "event \<Rightarrow> bool" where
  "gl_state_event (Use p) = True"
| "gl_state_event (StopUsing p) = True"
| "gl_state_event (GlUniform1i loc v) = True"
| "gl_state_event (GlUniform1f loc x) = True"
| "gl_state_event (GlUniform4fv loc n xs) = True"
| "gl_state_event e = False"

fun is_uniform_write :: "event \<Rightarrow> bool" where
  "is_uniform_write (GlUniform1i loc v) = True"
| "is_uniform_write (GlUniform1f loc x) = True"
| "is_uniform_write (GlUniform4fv loc n xs) = True"
| "is_uniform_write e = False"

fun is_upload :: "event \<Rightarrow> bool" where
  "is_upload (GlUniform4fv loc n xs) = True"
| "is_upload e = False"

text \<open>The program in use after a call: \<^verbatim>\<open>use\<close> activates its program, \<^verbatim>\<open>stopusing\<close>
  leaves none active.\<close>

fun active_program :: "program_id option \<Rightarrow> event \<Rightarrow> program_id option" where
  "active_program active (Use p) = Some p"
| "active_program active (StopUsing p) = None"
| "active_program active e = active"

text \<open>Every uniform write of a run, paired with the program that is active when it
  executes: the program whose uniform state the write changes.\<close>

fun uniform_writes :: "program_id option \<Rightarrow> event list \<Rightarrow> (program_id option \<times> event) list" where
  "uniform_writes active [] = []"
| "uniform_writes active (e # es) =
     (if is_uniform_write e then [(active, e)] else []) @
     uniform_writes (active_program active e) es"

text \<open>The life of shader units and programs during assembly.\<close>

fun lifecycle_event :: "event \<Rightarrow> bool" where
  "lifecycle_event (NewShader u stage code) = True"
| "lifecycle_event (NewProgram p v f) = True"
| "lifecycle_event (Link p) = True"
| "lifecycle_event (DeleteShader u) = True"
| "lifecycle_event e = False"

fun refers_to :: "shader_unit \<Rightarrow> event \<Rightarrow> bool" where
  "refers_to u (NewShader u' stage code) = (u' = u)"
| "refers_to u (NewProgram p v f) = (v = u \<or> f = u)"
| "refers_to u (DeleteShader u') = (u' = u)"
| "refers_to u e = False"

text \<open>What follows the first occurrence of a call, and whether another call is among it.\<close>

definition after_first :: "event \<Rightarrow> event list \<Rightarrow> event list" where
  "after_first x tr = drop 1 (dropWhile (\<lambda>e. e \<noteq> x) tr)"

definition precedes :: "event \<Rightarrow> event \<Rightarrow> event list \<Rightarrow> bool" where
  "precedes x y tr \<longleftrightarrow> y \<in> set (after_first x tr)"

text \<open>\<^verbatim>\<open>glUniform4fv(location, count, value)\<close> reads \<open>count\<close> vectors of four floats from
  \<^verbatim>\<open>value\<close>, the cells \<open>0\<close> to \<open>count * 4 - 1\<close>; these are the cells among them that lie
  beyond the end of the array.\<close>

definition reads_past_end :: "nat \<Rightarrow> real list \<Rightarrow> nat list" where
  "reads_past_end n table = filter (\<lambda>j. length table \<le> j) [0..<n * 4]"

text \<open>Whether a run reached its end.\<close>

definition succeeded :: "error + 'a \<Rightarrow> bool" where
  "succeeded r = (case r of Inl e \<Rightarrow> False | Inr x \<Rightarrow> True)"

section \<open>A sample world\<close>

text \<open>A world in which \<^verbatim>\<open>init\<close> runs to its end: 21 terrain types, 9 blending
  modes, the given palette lines, shader files that compile and link, and every
  name resolved.\<close>

definition sample_terrain_types :: "terrain_type list" where
  "sample_terrain_types = map (\<lambda>i. \<lparr>terrain_id = i, blend_priority = i mod 4\<rparr>) [0..20]"

definition sample_env :: "nat \<Rightarrow> string list \<Rightarrow> env" where
  "sample_env bmode_count palette =
     \<lparr>terrain_meta_file = Some sample_terrain_types,
      blending_meta_file = Some (map (\<lambda>i. \<lparr>mode_id = int i\<rparr>) [0..<bmode_count]),
      player_color_palette = Some palette,
      shader_source = (\<lambda>fname. Some ''void main() {}''),
      compiles = (\<lambda>stage code. True),
      links = (\<lambda>p. True),
      uniform_location = (\<lambda>p name. Some (int (length name))),
      attribute_location = (\<lambda>p name. Some (int (length name)))\<rparr>"

section \<open>Properties of the model\<close>

subsection \<open>Termination of the outer loop\<close>

text \<open>The inner loop of the sweep leaves the side length of the terrain as it is, which
  is what makes the outer loop terminate.\<close>

lemma sweep_se_get_size:
  "sweep_se pos s = Inr s' \<Longrightarrow> get_size (terrain s') = get_size (terrain s)"
proof (induction pos s rule: sweep_se.induct)
  case (1 pos s)
  show ?case
  proof (cases "se pos < int (get_size (terrain s))")
    case True
    with "1.prems" obtain texid t u where
      d: "terrain_data_at (ne pos) (se pos) = Some texid" and
      st: "set_tile pos (int texid) (terrain s) = (Inr u, t)" and
      rec: "sweep_se (pos\<lparr>se := se pos + 1\<rparr>) (emit [SetTile pos (int texid)] (s\<lparr>terrain := t\<rparr>)) = Inr s'"
      by (subst (asm) sweep_se.simps) (auto split: option.splits sum.splits prod.splits)
    from "1.IH" [OF True d st [symmetric] refl rec]
    have "get_size (terrain s') = get_size t" by (simp add: emit_def)
    moreover from st have "get_size t = get_size (terrain s)"
      by (auto simp: set_tile_def get_size_def split: if_splits)
    ultimately show ?thesis by simp
  next
    case False
    with "1.prems" show ?thesis by (subst (asm) sweep_se.simps) simp
  qed
qed

termination sweep_ne
  by (relation "measure (\<lambda>(pos, s). nat (int (get_size (terrain s)) - ne pos))")
     (auto dest: sweep_se_get_size)

declare sweep_ne.simps [simp del]

subsection \<open>The terrain model\<close>

lemma set_tile_side_length: "side_length (snd (set_tile pos texid t)) = side_length t"
  by (simp add: set_tile_def)

lemma set_tile_counts:
  "terrain_type_count (snd (set_tile pos texid t)) = terrain_type_count t"
  "blending_mode_count (snd (set_tile pos texid t)) = blending_mode_count t"
  "priority_ordering (snd (set_tile pos texid t)) = priority_ordering t"
  by (simp_all add: set_tile_def)

lemma set_tile_Inr:
  "set_tile pos texid t = (Inr u, t') \<longleftrightarrow>
     0 \<le> texid \<and> texid < int (terrain_type_count t) \<and>
     t' = (if on_grid t pos then t\<lparr>tiles := (tiles t)(pos := Some texid)\<rparr> else t)"
  by (auto simp: set_tile_def)

subsection \<open>The sweep over the tile matrix\<close>

lemma bind_result_Inr:
  "bind_result m f = Inr y \<longleftrightarrow> (\<exists>x. m = Inr x \<and> f x = Inr y)"
  by (cases m) (simp_all add: bind_result_def)

lemma terrain_data_at_Some:
  "terrain_data_at i j = Some x \<longleftrightarrow>
     0 \<le> i \<and> i < 20 \<and> 0 \<le> j \<and> j < 20 \<and> x = terrain_data ! nat i ! nat j"
  by (auto simp: terrain_data_at_def)

lemma sweep_se_Inr:
  assumes "sweep_se pos s = Inr s'" "get_size (terrain s) = 20"
    "0 \<le> ne pos" "ne pos < 20" "0 \<le> se pos"
  shows "s' = s\<lparr>terrain := swept_row (ne pos) (se pos) (terrain s),
               log := log s @ row_calls (ne pos) (se pos)\<rparr>"
  using assms
proof (induction pos s rule: sweep_se.induct)
  case (1 pos s)
  show ?case
  proof (cases "se pos < 20")
    case True
    with "1.prems" obtain texid t u where
      d: "terrain_data_at (ne pos) (se pos) = Some texid" and
      st: "set_tile pos (int texid) (terrain s) = (Inr u, t)" and
      rec: "sweep_se (pos\<lparr>se := se pos + 1\<rparr>) (emit [SetTile pos (int texid)] (s\<lparr>terrain := t\<rparr>)) = Inr s'"
      by (subst (asm) sweep_se.simps) (auto split: option.splits sum.splits prod.splits)
    have lt: "se pos < int (get_size (terrain s))" using True "1.prems" by simp
    have tx: "int texid = texid_at pos" using d by (simp add: terrain_data_at_Some texid_at_def)
    have og: "on_grid (terrain s) pos"
      using True "1.prems" by (simp add: on_grid_def get_size_def)
    from st og have t: "t = (terrain s)\<lparr>tiles := (tiles (terrain s))(pos := Some (texid_at pos))\<rparr>"
      by (simp add: set_tile_Inr tx)
    have gs: "get_size (terrain (emit [SetTile pos (int texid)] (s\<lparr>terrain := t\<rparr>))) = 20"
      using "1.prems" t by (simp add: emit_def get_size_def)
    from "1.IH" [OF lt d st [symmetric] refl rec gs] "1.prems"
    have s': "s' = (emit [SetTile pos (int texid)] (s\<lparr>terrain := t\<rparr>))
        \<lparr>terrain := swept_row (ne pos) (se pos + 1) t,
         log := log (emit [SetTile pos (int texid)] (s\<lparr>terrain := t\<rparr>)) @ row_calls (ne pos) (se pos + 1)\<rparr>"
      by (simp add: emit_def)
    have pos: "texid_at \<lparr>ne = ne pos, se = se pos\<rparr> = texid_at pos" by (simp add: texid_at_def)
    have rc: "row_calls (ne pos) (se pos) = SetTile pos (texid_at pos) # row_calls (ne pos) (se pos + 1)"
      using True by (simp add: row_calls_def upto_rec1 [of "se pos" 19] pos)
    have sw: "swept_row (ne pos) (se pos + 1) t = swept_row (ne pos) (se pos) (terrain s)"
      unfolding swept_row_def t using True "1.prems"(5)
      by (auto simp: fun_eq_iff intro!: arg_cong [where f = "\<lambda>f. tiles_update f (terrain s)"])
    show ?thesis unfolding s' sw rc by (simp add: emit_def tx)
  next
    case False
    then have "row_calls (ne pos) (se pos) = []" by (simp add: row_calls_def)
    moreover have "swept_row (ne pos) (se pos) (terrain s) = terrain s"
    proof -
      have "(\<lambda>p. if ne p = ne pos \<and> se pos \<le> se p \<and> se p < 20 then Some (texid_at p)
                 else tiles (terrain s) p) = tiles (terrain s)"
        using False by (auto simp: fun_eq_iff)
      then show ?thesis by (simp add: swept_row_def)
    qed
    moreover have "s' = s" using False "1.prems" by (subst (asm) sweep_se.simps) simp
    ultimately show ?thesis by simp
  qed
qed

lemma sweep_se_valid:
  assumes "sweep_se pos s = Inr s'" "get_size (terrain s) = 20"
    "0 \<le> ne pos" "ne pos < 20" "0 \<le> se pos" "se pos \<le> c" "c < 20"
  shows "texid_at \<lparr>ne = ne pos, se = c\<rparr> < int (terrain_type_count (terrain s))"
  using assms
proof (induction pos s rule: sweep_se.induct)
  case (1 pos s)
  have True: "se pos < 20" using "1.prems" by simp
  with "1.prems" obtain texid t u where
    d: "terrain_data_at (ne pos) (se pos) = Some texid" and
    st: "set_tile pos (int texid) (terrain s) = (Inr u, t)" and
    rec: "sweep_se (pos\<lparr>se := se pos + 1\<rparr>) (emit [SetTile pos (int texid)] (s\<lparr>terrain := t\<rparr>)) = Inr s'"
    by (subst (asm) sweep_se.simps) (auto split: option.splits sum.splits prod.splits)
  have lt: "se pos < int (get_size (terrain s))" using True "1.prems" by simp
  have tx: "int texid = texid_at pos" using d by (simp add: terrain_data_at_Some texid_at_def)
  from st have v: "texid_at pos < int (terrain_type_count (terrain s))"
    and t: "terrain_type_count t = terrain_type_count (terrain s)" "side_length t = 20"
    using "1.prems"(2) by (auto simp: set_tile_Inr tx get_size_def)
  show ?case
  proof (cases "c = se pos")
    case True
    then show ?thesis using v by (simp add: texid_at_def)
  next
    case False
    have gs: "get_size (terrain (emit [SetTile pos (int texid)] (s\<lparr>terrain := t\<rparr>))) = 20"
      using t by (simp add: emit_def get_size_def)
    from "1.IH" [OF lt d st [symmetric] refl rec gs] "1.prems" False t
    show ?thesis by (simp add: emit_def)
  qed
qed

lemma terrain_data_bound:
  assumes "0 \<le> i" "i < 20" "0 \<le> j" "j < 20"
  shows "terrain_data ! nat i ! nat j \<le> 20"
proof -
  have all: "\<forall>row \<in> set terrain_data. length row = 20 \<and> (\<forall>x \<in> set row. x \<le> 20)"
    by (simp add: terrain_data_def)
  have len: "length terrain_data = 20" by (simp add: terrain_data_def)
  have "terrain_data ! nat i \<in> set terrain_data"
    using assms len by (intro nth_mem) simp
  with all have row: "length (terrain_data ! nat i) = 20" "\<forall>x \<in> set (terrain_data ! nat i). x \<le> 20"
    by auto
  have "terrain_data ! nat i ! nat j \<in> set (terrain_data ! nat i)"
    using assms row(1) by (intro nth_mem) simp
  with row(2) show ?thesis by blast
qed

lemma sweep_se_succeeds:
  assumes "get_size (terrain s) = 20" "0 \<le> ne pos" "ne pos < 20" "0 \<le> se pos"
    "20 < terrain_type_count (terrain s)"
  shows "\<exists>s'. sweep_se pos s = Inr s'"
  using assms
proof (induction pos s rule: sweep_se.induct)
  case (1 pos s)
  show ?case
  proof (cases "se pos < 20")
    case True
    define texid where "texid = terrain_data ! nat (ne pos) ! nat (se pos)"
    define t where "t = (terrain s)\<lparr>tiles := (tiles (terrain s))(pos := Some (int texid))\<rparr>"
    have d: "terrain_data_at (ne pos) (se pos) = Some texid"
      using True "1.prems" by (simp add: terrain_data_at_def texid_def)
    have "texid \<le> 20" unfolding texid_def using True "1.prems" by (intro terrain_data_bound) auto
    then have st: "set_tile pos (int texid) (terrain s) = (Inr (), t)"
      using "1.prems" True by (simp add: set_tile_def on_grid_def get_size_def t_def)
    have lt: "se pos < int (get_size (terrain s))" using True "1.prems" by simp
    have "\<exists>s'. sweep_se (pos\<lparr>se := se pos + 1\<rparr>) (emit [SetTile pos (int texid)] (s\<lparr>terrain := t\<rparr>)) = Inr s'"
      using "1.IH" [OF lt d st [symmetric] refl] "1.prems"
      by (simp add: emit_def get_size_def t_def)
    then show ?thesis
      by (subst sweep_se.simps) (simp add: lt d st)
  next
    case False
    with "1.prems" show ?thesis by (subst sweep_se.simps) simp
  qed
qed

lemma sweep_ne_Inr:
  assumes "sweep_ne pos s = Inr s'" "get_size (terrain s) = 20" "0 \<le> ne pos"
  shows "s' = s\<lparr>terrain := swept_from (ne pos) (terrain s), log := log s @ grid_calls (ne pos)\<rparr>"
  using assms
proof (induction pos s rule: sweep_ne.induct)
  case (1 pos s)
  show ?case
  proof (cases "ne pos < 20")
    case True
    with "1.prems" obtain s1 where
      row: "sweep_se (pos\<lparr>se := 0\<rparr>) s = Inr s1" and
      rec: "sweep_ne (pos\<lparr>ne := ne pos + 1\<rparr>) s1 = Inr s'"
      by (subst (asm) sweep_ne.simps) (auto split: sum.splits)
    have lt: "ne pos < int (get_size (terrain s))" using True "1.prems" by simp
    from sweep_se_Inr [OF row "1.prems"(2)] "1.prems" True
    have s1: "s1 = s\<lparr>terrain := swept_row (ne pos) 0 (terrain s),
                     log := log s @ row_calls (ne pos) 0\<rparr>" by simp
    have gs: "get_size (terrain s1) = 20"
      using sweep_se_get_size [OF row] "1.prems" by simp
    from "1.IH" [OF lt row rec gs] "1.prems"
    have s': "s' = s1\<lparr>terrain := swept_from (ne pos + 1) (terrain s1),
                     log := log s1 @ grid_calls (ne pos + 1)\<rparr>" by simp
    have gc: "grid_calls (ne pos) = row_calls (ne pos) 0 @ grid_calls (ne pos + 1)"
      using True by (simp add: grid_calls_def upto_rec1 [of "ne pos" 19])
    have sw: "swept_from (ne pos + 1) (swept_row (ne pos) 0 (terrain s)) = swept_from (ne pos) (terrain s)"
      unfolding swept_from_def swept_row_def using True
      by (auto simp: fun_eq_iff intro!: arg_cong [where f = "\<lambda>f. tiles_update f (terrain s)"])
    show ?thesis unfolding s' by (simp add: s1 gc sw)
  next
    case False
    then have "grid_calls (ne pos) = []" by (simp add: grid_calls_def)
    moreover have "swept_from (ne pos) (terrain s) = terrain s"
    proof -
      have "(\<lambda>p. if ne pos \<le> ne p \<and> ne p < 20 \<and> 0 \<le> se p \<and> se p < 20 then Some (texid_at p)
                 else tiles (terrain s) p) = tiles (terrain s)"
        using False by (auto simp: fun_eq_iff)
      then show ?thesis by (simp add: swept_from_def)
    qed
    moreover have "s' = s" using False "1.prems" by (subst (asm) sweep_ne.simps) simp
    ultimately show ?thesis by simp
  qed
qed

lemma sweep_ne_valid:
  assumes "sweep_ne pos s = Inr s'" "get_size (terrain s) = 20" "0 \<le> ne pos"
    "ne pos \<le> ne p" "ne p < 20" "0 \<le> se p" "se p < 20"
  shows "texid_at p < int (terrain_type_count (terrain s))"
  using assms
proof (induction pos s rule: sweep_ne.induct)
  case (1 pos s)
  have True: "ne pos < 20" using "1.prems" by simp
  with "1.prems" obtain s1 where
    row: "sweep_se (pos\<lparr>se := 0\<rparr>) s = Inr s1" and
    rec: "sweep_ne (pos\<lparr>ne := ne pos + 1\<rparr>) s1 = Inr s'"
    by (subst (asm) sweep_ne.simps) (auto split: sum.splits)
  have lt: "ne pos < int (get_size (terrain s))" using True "1.prems" by simp
  show ?case
  proof (cases "ne p = ne pos")
    case True
    from sweep_se_valid [OF row "1.prems"(2), of "se p"] "1.prems" \<open>ne pos < 20\<close> True
    have "texid_at \<lparr>ne = ne p, se = se p\<rparr> < int (terrain_type_count (terrain s))" by simp
    then show ?thesis by (simp add: texid_at_def)
  next
    case False
    from sweep_se_Inr [OF row "1.prems"(2)] "1.prems" \<open>ne pos < 20\<close>
    have s1: "s1 = s\<lparr>terrain := swept_row (ne pos) 0 (terrain s),
                     log := log s @ row_calls (ne pos) 0\<rparr>" by simp
    have gs: "get_size (terrain s1) = 20"
      using sweep_se_get_size [OF row] "1.prems" by simp
    from "1.IH" [OF lt row rec gs] "1.prems" False
    show ?thesis by (simp add: s1 swept_row_def)
  qed
qed

lemma sweep_ne_succeeds:
  assumes "get_size (terrain s) = 20" "0 \<le> ne pos" "20 < terrain_type_count (terrain s)"
  shows "\<exists>s'. sweep_ne pos s = Inr s'"
  using assms
proof (induction pos s rule: sweep_ne.induct)
  case (1 pos s)
  show ?case
  proof (cases "ne pos < 20")
    case True
    from sweep_se_succeeds [of s "pos\<lparr>se := 0\<rparr>"] "1.prems" True
    obtain s1 where row: "sweep_se (pos\<lparr>se := 0\<rparr>) s = Inr s1" by auto
    have lt: "ne pos < int (get_size (terrain s))" using True "1.prems" by simp
    from sweep_se_Inr [OF row "1.prems"(1)] "1.prems" True
    have s1: "s1 = s\<lparr>terrain := swept_row (ne pos) 0 (terrain s),
                     log := log s @ row_calls (ne pos) 0\<rparr>" by simp
    have "\<exists>s'. sweep_ne (pos\<lparr>ne := ne pos + 1\<rparr>) s1 = Inr s'"
      using "1.IH" [OF lt row] "1.prems"
      by (simp add: s1 swept_row_def get_size_def)
    then show ?thesis by (subst sweep_ne.simps) (simp add: lt row)
  next
    case False
    with "1.prems" show ?thesis by (subst sweep_ne.simps) simp
  qed
qed

subsection \<open>The shader initialisation\<close>

lemma emit_emit: "emit es (emit ds s) = emit (ds @ es) s"
  by (simp add: emit_def)

lemma emit_Nil: "emit [] s = s"
  by (simp add: emit_def)

lemma load_shader_Inr:
  "load_shader env unit stage fname s = Inr s' \<longleftrightarrow>
     unit_ok env stage fname \<and> s' = emit (unit_trace env unit stage fname) s"
  by (auto simp: load_shader_def unit_ok_def unit_trace_def shader_code_def split: option.splits)

lemma link_Inr: "link env p s = Inr s' \<longleftrightarrow> links env p \<and> s' = emit [Link p] s"
  by (auto simp: link_def)

lemma get_uniform_id_Inr:
  "get_uniform_id env p name s = Inr (loc, s') \<longleftrightarrow>
     uniform_location env p name \<noteq> None \<and> loc = uniform_id env p name \<and>
     s' = emit [GetUniformId p name] s"
  by (auto simp: get_uniform_id_def uniform_id_def split: option.splits)

lemma get_attribute_id_Inr:
  "get_attribute_id env p name s = Inr (loc, s') \<longleftrightarrow>
     attribute_location env p name = Some loc \<and> s' = emit [GetAttributeId p name] s"
  by (auto simp: get_attribute_id_def split: option.splits)

lemma init_shader_units_Inr:
  "init_shader_units env s = Inr s' \<longleftrightarrow>
     (unit_ok env GL_VERTEX_SHADER ''shaders/maptexture.vert.glsl'' \<and>
      unit_ok env GL_FRAGMENT_SHADER ''shaders/maptexture.frag.glsl'' \<and>
      unit_ok env GL_FRAGMENT_SHADER ''shaders/teamcolors.frag.glsl'' \<and>
      unit_ok env GL_VERTEX_SHADER ''shaders/alphamask.vert.glsl'' \<and>
      unit_ok env GL_FRAGMENT_SHADER ''shaders/alphamask.frag.glsl'') \<and>
     s' = emit (units_trace env) s"
  unfolding init_shader_units_def units_trace_def
  by (auto simp: bind_result_Inr load_shader_Inr emit_emit)

lemma init_texture_shader_Inr:
  "init_texture_shader env s = Inr s' \<longleftrightarrow>
     (links env Texture_shader \<and>
      resolves (uniform_location env Texture_shader) [''texture''] \<and>
      resolves (attribute_location env Texture_shader) [''tex_coordinates'']) \<and>
     s' = emit (texture_shader_trace env) s"
  unfolding init_texture_shader_def texture_shader_trace_def resolves_def
  by (auto simp: bind_result_Inr link_Inr get_uniform_id_Inr get_attribute_id_Inr emit_emit)

lemma init_teamcolor_shader_Inr:
  "init_teamcolor_shader env pc s = Inr s' \<longleftrightarrow>
     (links env Teamcolor_shader \<and>
      resolves (uniform_location env Teamcolor_shader)
        [''texture'', ''player_number'', ''alpha_marker'', ''player_color''] \<and>
      resolves (attribute_location env Teamcolor_shader) [''tex_coordinates'']) \<and>
     s' = emit (teamcolor_shader_trace env pc) s"
  unfolding init_teamcolor_shader_def teamcolor_shader_trace_def resolves_def
  by (auto simp: bind_result_Inr link_Inr get_uniform_id_Inr get_attribute_id_Inr emit_emit)

lemma init_alphamask_shader_Inr:
  "init_alphamask_shader env s = Inr s' \<longleftrightarrow>
     (links env Alphamask_shader \<and>
      resolves (attribute_location env Alphamask_shader)
        [''base_tex_coordinates'', ''mask_tex_coordinates''] \<and>
      resolves (uniform_location env Alphamask_shader)
        [''show_mask'', ''base_texture'', ''mask_texture'']) \<and>
     s' = emit (alphamask_shader_trace env) s"
  unfolding init_alphamask_shader_def alphamask_shader_trace_def resolves_def
  by (auto simp: bind_result_Inr link_Inr get_uniform_id_Inr get_attribute_id_Inr emit_emit)

lemma init_shaders_Inr:
  "init_shaders env pc s = Inr s' \<longleftrightarrow> shaders_ok env \<and> s' = emit (shader_trace env pc) s"
  unfolding init_shaders_def shader_trace_def shaders_ok_def delete_shader_units_def release_trace_def
  by (auto simp: bind_result_Inr init_shader_units_Inr init_texture_shader_Inr
      init_teamcolor_shader_Inr init_alphamask_shader_Inr emit_emit)

subsection \<open>A run of \<^verbatim>\<open>init\<close> and its outcome\<close>

lemma read_csv_file_Inr:
  "read_csv_file file fname s = Inr (rows, s') \<longleftrightarrow>
     file = Some rows \<and> s' = emit [ReadCsvFile fname] s"
  by (auto simp: read_csv_file_def split: option.splits)

lemma init_terrain_Inr:
  assumes "init_terrain env s0 = Inr s"
  shows "\<exists>tt bm. terrain_meta_file env = Some tt \<and> blending_meta_file env = Some bm \<and>
           s = s0\<lparr>terrain := built_terrain tt bm,
                  log := log s0 @ metadata_trace @ grid_trace (length tt) (length bm)\<rparr> \<and>
           (\<forall>p. 0 \<le> ne p \<and> ne p < 20 \<and> 0 \<le> se p \<and> se p < 20 \<longrightarrow>
                texid_at p < int (length tt))"
proof -
  from assms obtain tt bm where
    tt: "terrain_meta_file env = Some tt" and bm: "blending_meta_file env = Some bm" and
    sw: "sweep_ne \<lparr>ne = 0, se = 0\<rparr>
           (emit [NewTerrain 20 (length tt) (length bm)]
              (emit [ReadCsvFile ''age/processed/blending_meta.docx'']
                 (emit [ReadCsvFile ''age/processed/terrain_meta.docx''] s0)
               \<lparr>terrain := new_terrain 20 (length tt) tt (length bm) bm\<rparr>)) = Inr s"
    unfolding init_terrain_def
    by (auto simp: bind_result_Inr read_csv_file_Inr Let_def)
  let ?s3 = "emit [NewTerrain 20 (length tt) (length bm)]
              (emit [ReadCsvFile ''age/processed/blending_meta.docx'']
                 (emit [ReadCsvFile ''age/processed/terrain_meta.docx''] s0)
               \<lparr>terrain := new_terrain 20 (length tt) tt (length bm) bm\<rparr>)"
  have gs: "get_size (terrain ?s3) = 20"
    by (simp add: emit_def get_size_def new_terrain_def)
  have cnt: "terrain_type_count (terrain ?s3) = length tt"
    by (simp add: emit_def new_terrain_def)
  from sweep_ne_Inr [OF sw gs]
  have "s = ?s3\<lparr>terrain := swept_from 0 (terrain ?s3), log := log ?s3 @ grid_calls 0\<rparr>"
    by simp
  then have s: "s = s0\<lparr>terrain := built_terrain tt bm,
                  log := log s0 @ metadata_trace @ grid_trace (length tt) (length bm)\<rparr>"
    by (simp add: emit_def built_terrain_def metadata_trace_def grid_trace_def)
  have "texid_at p < int (length tt)"
    if "0 \<le> ne p \<and> ne p < 20 \<and> 0 \<le> se p \<and> se p < 20" for p
    using sweep_ne_valid [OF sw gs, of p] that cnt by simp
  with tt bm s show ?thesis by blast
qed

lemma init_terrain_succeeds:
  assumes "terrain_meta_file env = Some tt" "blending_meta_file env = Some bm" "20 < length tt"
  shows "\<exists>s. init_terrain env s0 = Inr s"
proof -
  let ?s3 = "emit [NewTerrain 20 (length tt) (length bm)]
              (emit [ReadCsvFile ''age/processed/blending_meta.docx'']
                 (emit [ReadCsvFile ''age/processed/terrain_meta.docx''] s0)
               \<lparr>terrain := new_terrain 20 (length tt) tt (length bm) bm\<rparr>)"
  have "\<exists>s. sweep_ne \<lparr>ne = 0, se = 0\<rparr> ?s3 = Inr s"
    using assms(3) by (intro sweep_ne_succeeds) (simp_all add: emit_def get_size_def new_terrain_def)
  then show ?thesis
    unfolding init_terrain_def using assms(1,2)
    by (simp add: bind_result_def read_csv_file_def Let_def)
qed

lemma init_player_colors_Inr:
  "init_player_colors env s = Inr (pc, s') \<longleftrightarrow>
     (\<exists>file. player_color_rows env = Some file \<and> pc = convert_player_colors file \<and>
        s' = emit (player_color_trace (length file)) s)"
  unfolding init_player_colors_def player_color_trace_def
  by (auto simp: bind_result_Inr read_csv_file_Inr emit_emit Let_def)

lemma init_Inr:
  assumes "init env s0 = Inr s"
  shows "\<exists>tt bm file. terrain_meta_file env = Some tt \<and> blending_meta_file env = Some bm \<and>
           player_color_rows env = Some file \<and> shaders_ok env \<and>
           (\<forall>p. 0 \<le> ne p \<and> ne p < 20 \<and> 0 \<le> se p \<and> se p < 20 \<longrightarrow>
                texid_at p < int (length tt)) \<and>
           s = s0\<lparr>terrain := built_terrain tt bm, log := log s0 @ init_trace env tt bm file\<rparr>"
proof -
  from assms obtain s1 pc s2 s3 where
    t: "init_terrain env (init_textures s0) = Inr s1" and
    p: "init_player_colors env s1 = Inr (pc, s2)" and
    sh: "init_shaders env pc s2 = Inr s3" and
    s: "s = init_callbacks s3"
    unfolding init_def by (auto simp: bind_result_Inr)
  from init_terrain_Inr [OF t] obtain tt bm where
    tt: "terrain_meta_file env = Some tt" and bm: "blending_meta_file env = Some bm" and
    s1: "s1 = (init_textures s0)\<lparr>terrain := built_terrain tt bm,
                  log := log (init_textures s0) @ metadata_trace @ grid_trace (length tt) (length bm)\<rparr>" and
    v: "\<forall>p. 0 \<le> ne p \<and> ne p < 20 \<and> 0 \<le> se p \<and> se p < 20 \<longrightarrow> texid_at p < int (length tt)"
    by blast
  from p obtain pcf where
    f: "player_color_rows env = Some pcf" and pc: "pc = convert_player_colors pcf" and
    s2: "s2 = emit (player_color_trace (length pcf)) s1"
    by (auto simp: init_player_colors_Inr)
  from sh have ok: "shaders_ok env" and s3: "s3 = emit (shader_trace env pc) s2"
    by (auto simp: init_shaders_Inr)
  have "s = s0\<lparr>terrain := built_terrain tt bm, log := log s0 @ init_trace env tt bm pcf\<rparr>"
    unfolding s s3 s2 s1 pc
    by (simp add: init_callbacks_def init_textures_def emit_def init_trace_def
        texture_trace_def callback_trace_def)
  with tt bm f ok v show ?thesis by blast
qed

lemma init_succeeds:
  assumes "env_ok env"
  shows "\<exists>s. init env s0 = Inr s"
proof -
  from assms obtain tt bm pcf where
    tt: "terrain_meta_file env = Some tt" "20 < length tt" and
    bm: "blending_meta_file env = Some bm" and f: "player_color_rows env = Some pcf" and
    ok: "shaders_ok env"
    by (auto simp: env_ok_def split: option.splits)
  from init_terrain_succeeds [OF tt(1) bm tt(2)]
  obtain s1 where t: "init_terrain env (init_textures s0) = Inr s1" by blast
  have p: "init_player_colors env s1 =
      Inr (convert_player_colors pcf, emit (player_color_trace (length pcf)) s1)"
    using f by (simp add: init_player_colors_Inr)
  have sh: "init_shaders env (convert_player_colors pcf) (emit (player_color_trace (length pcf)) s1) =
      Inr (emit (shader_trace env (convert_player_colors pcf)) (emit (player_color_trace (length pcf)) s1))"
    using ok by (simp add: init_shaders_Inr)
  show ?thesis unfolding init_def by (simp add: bind_result_def t p sh)
qed

subsection \<open>The staging table\<close>

lemma convert_loop_length:
  "length (convert_loop i n rows buf) = length buf"
proof (induction i n rows buf rule: convert_loop.induct)
  case (1 i n rows buf)
  show ?case
  proof (cases "i < n")
    case True
    with "1.IH" [OF True refl] show ?thesis
      by (subst convert_loop.simps) (simp add: Let_def)
  next
    case False
    then show ?thesis by (subst convert_loop.simps) simp
  qed
qed

lemma convert_loop_nth:
  assumes "n * 4 \<le> length buf" "k < n" "c < 4"
  shows "convert_loop i n rows buf ! (k * 4 + c) =
           (if i \<le> k then quad (rows ! k) ! c else buf ! (k * 4 + c))"
  using assms
proof (induction i n rows buf rule: convert_loop.induct)
  case (1 i n rows buf)
  show ?case
  proof (cases "i < n")
    case True
    let ?buf' = "buf[i * 4 := normalize (col_r (rows ! i)),
                     i * 4 + 1 := normalize (col_g (rows ! i)),
                     i * 4 + 2 := normalize (col_b (rows ! i)),
                     i * 4 + 3 := normalize (col_a (rows ! i))]"
    have len: "n * 4 \<le> length ?buf'" using "1.prems" by simp
    from "1.IH" [OF True refl len "1.prems"(2,3)]
    have ih: "convert_loop (i + 1) n rows ?buf' ! (k * 4 + c) =
        (if i + 1 \<le> k then quad (rows ! k) ! c else ?buf' ! (k * 4 + c))" .
    have unfold: "convert_loop i n rows buf = convert_loop (i + 1) n rows ?buf'"
      using True by (subst convert_loop.simps) (simp add: Let_def)
    consider "k < i" | "k = i" | "i < k" by linarith
    then show ?thesis
    proof cases
      case 1
      then have "?buf' ! (k * 4 + c) = buf ! (k * 4 + c)"
        using "1.prems"(3) by simp
      with 1 ih unfold show ?thesis by simp
    next
      case 2
      have inb: "i * 4 + 3 < length buf" using True "1.prems"(1) by simp
      from "1.prems"(3) consider "c = 0" | "c = 1" | "c = 2" | "c = 3" by linarith
      then have "?buf' ! (i * 4 + c) = quad (rows ! i) ! c"
        using inb by cases (simp_all add: quad_def)
      with 2 ih unfold show ?thesis by simp
    next
      case 3
      with ih unfold show ?thesis by simp
    qed
  next
    case False
    with "1.prems" show ?thesis by (subst convert_loop.simps) simp
  qed
qed

lemma convert_player_colors_length:
  "length (convert_player_colors rows) = length rows * 4"
  by (simp add: convert_player_colors_def convert_loop_length)

lemma convert_player_colors_slot:
  "slot (convert_player_colors rows) k =
     (if k < length rows then Some (normalized (rows ! k)) else None)"
proof (cases "k < length rows")
  case True
  have n: "convert_player_colors rows ! (k * 4 + c) = quad (rows ! k) ! c" if "c < 4" for c
    unfolding convert_player_colors_def using True that
    by (subst convert_loop_nth) simp_all
  from n [of 0] n [of 1] n [of 2] n [of 3] True show ?thesis
    by (simp add: slot_def convert_player_colors_length quad_def normalized_def)
next
  case False
  then show ?thesis by (simp add: slot_def convert_player_colors_length)
qed

subsection \<open>The teardown loops\<close>

lemma delete_loop_done:
  "\<not> i < bound \<Longrightarrow> delete_loop entry array_of i bound s = (Inr (), s)"
  by (subst delete_loop.simps) simp

lemma delete_loop_null:
  "i < bound \<Longrightarrow> array_of s = None \<Longrightarrow>
     delete_loop entry array_of i bound s = (Inl UndefinedBehaviour, s)"
  by (subst delete_loop.simps) simp

lemma delete_loop_allocated:
  "(\<And>es s'. array_of (emit es s') = array_of s') \<Longrightarrow> array_of s = Some textures \<Longrightarrow>
     bound \<le> length textures \<Longrightarrow>
     delete_loop entry array_of i bound s = (Inr (), emit (map entry [i..<bound]) s)"
proof (induction entry array_of i bound s rule: delete_loop.induct)
  case (1 entry array_of i bound s)
  show ?case
  proof (cases "i < bound")
    case True
    then have lt: "i < length textures" using "1.prems"(3) by simp
    have "array_of (emit [entry i] s) = Some textures"
      using "1.prems"(2) by (simp add: "1.prems"(1))
    from "1.IH" [OF True "1.prems"(2) lt "1.prems"(1) this "1.prems"(3)] True lt "1.prems"(2)
    show ?thesis
      by (subst delete_loop.simps) (simp add: emit_emit upt_conv_Cons)
  next
    case False
    then show ?thesis by (simp add: delete_loop_done emit_Nil)
  qed
qed

text \<open>With both pointers null and a positive \<^verbatim>\<open>blend_mode_count\<close>, \<^verbatim>\<open>destroy\<close> stops at
  the first array read, line 207 when \<^verbatim>\<open>terrain_texture_count\<close> is positive and line
  210 otherwise, after the five deletions that come before the loops.\<close>

lemma destroy_null_arrays:
  assumes "terrain_textures s = None" "blending_textures s = None" "0 < blend_mode_count s"
  shows "destroy s =
     (Inl UndefinedBehaviour,
      emit [DeleteTexture Gaben, DeleteTexture University,
            DeleteProgram Texture_shader, DeleteProgram Teamcolor_shader,
            DeleteProgram Alphamask_shader] s)"
proof (cases "0 < terrain_texture_count s")
  case True
  with assms(1) show ?thesis
    by (simp add: destroy_def Let_def delete_loop_null emit_def)
next
  case False
  with assms(2,3) show ?thesis
    by (simp add: destroy_def Let_def delete_loop_done delete_loop_null emit_def)
qed

text \<open>With both arrays allocated and long enough for the two bounds, \<^verbatim>\<open>destroy\<close> runs to
  its end and makes the calls of lines 199 to 212 in their order.\<close>

lemma destroy_allocated:
  assumes "terrain_textures s = Some tx" "terrain_texture_count s \<le> length tx"
    and "blending_textures s = Some bx" "blend_mode_count s \<le> length bx"
  shows "destroy s =
     (Inr (), emit (teardown_trace (terrain_texture_count s) (blend_mode_count s)) s)"
proof -
  let ?s1 = "emit [DeleteTexture Gaben, DeleteTexture University,
                   DeleteProgram Texture_shader, DeleteProgram Teamcolor_shader,
                   DeleteProgram Alphamask_shader] s"
  have 1: "delete_loop DeleteTerrainTexture terrain_textures 0 (terrain_texture_count s) ?s1 =
      (Inr (), emit (map DeleteTerrainTexture [0..<terrain_texture_count s]) ?s1)"
    using assms(1,2) by (intro delete_loop_allocated [where textures = tx]) (simp_all add: emit_def)
  let ?s2 = "emit (map DeleteTerrainTexture [0..<terrain_texture_count s]) ?s1"
  have 2: "delete_loop DeleteBlendingTexture blending_textures 0 (blend_mode_count s) ?s2 =
      (Inr (), emit (map DeleteBlendingTexture [0..<blend_mode_count s]) ?s2)"
    using assms(3,4) by (intro delete_loop_allocated [where textures = bx]) (simp_all add: emit_def)
  have c: "terrain_texture_count ?s1 = terrain_texture_count s" "blend_mode_count ?s2 = blend_mode_count s"
    by (simp_all add: emit_def)
  show ?thesis
    by (simp add: destroy_def Let_def c 1 2) (simp add: emit_emit teardown_trace_def)
qed

text \<open>An allocated array shorter than the bound: the loop deletes the entries the array
  has and stops at the read of the first entry beyond them.\<close>

lemma delete_loop_short:
  "(\<And>es s'. array_of (emit es s') = array_of s') \<Longrightarrow> array_of s = Some textures \<Longrightarrow>
     length textures < bound \<Longrightarrow> i \<le> length textures \<Longrightarrow>
     delete_loop entry array_of i bound s =
       (Inl UndefinedBehaviour, emit (map entry [i..<length textures]) s)"
proof (induction entry array_of i bound s rule: delete_loop.induct)
  case (1 entry array_of i bound s)
  from "1.prems"(3,4) have b: "i < bound" by simp
  show ?case
  proof (cases "i < length textures")
    case True
    have "array_of (emit [entry i] s) = Some textures"
      using "1.prems"(2) by (simp add: "1.prems"(1))
    moreover from True have "i + 1 \<le> length textures" by simp
    ultimately show ?thesis
      using "1.IH" [OF b "1.prems"(2) True "1.prems"(1)] True b "1.prems"(2,3)
      by (subst delete_loop.simps) (simp add: emit_emit upt_conv_Cons)
  next
    case False
    with b "1.prems"(2,4) show ?thesis
      by (subst delete_loop.simps) (simp add: emit_Nil)
  qed
qed

lemma destroy_short_blending:
  assumes "terrain_textures s = Some tx" "terrain_texture_count s \<le> length tx"
    and "blending_textures s = Some bx" "length bx < blend_mode_count s"
  shows "destroy s =
     (Inl UndefinedBehaviour,
      emit ([DeleteTexture Gaben, DeleteTexture University,
             DeleteProgram Texture_shader, DeleteProgram Teamcolor_shader,
             DeleteProgram Alphamask_shader] @
            map DeleteTerrainTexture [0..<terrain_texture_count s] @
            map DeleteBlendingTexture [0..<length bx]) s)"
proof -
  let ?s1 = "emit [DeleteTexture Gaben, DeleteTexture University,
                   DeleteProgram Texture_shader, DeleteProgram Teamcolor_shader,
                   DeleteProgram Alphamask_shader] s"
  have 1: "delete_loop DeleteTerrainTexture terrain_textures 0 (terrain_texture_count s) ?s1 =
      (Inr (), emit (map DeleteTerrainTexture [0..<terrain_texture_count s]) ?s1)"
    using assms(1,2) by (intro delete_loop_allocated [where textures = tx]) (simp_all add: emit_def)
  let ?s2 = "emit (map DeleteTerrainTexture [0..<terrain_texture_count s]) ?s1"
  have 2: "delete_loop DeleteBlendingTexture blending_textures 0 (blend_mode_count s) ?s2 =
      (Inl UndefinedBehaviour, emit (map DeleteBlendingTexture [0..<length bx]) ?s2)"
    using assms(3,4) by (intro delete_loop_short [where textures = bx]) (simp_all add: emit_def)
  have c: "terrain_texture_count ?s1 = terrain_texture_count s" "blend_mode_count ?s2 = blend_mode_count s"
    by (simp_all add: emit_def)
  show ?thesis
    by (simp add: destroy_def Let_def c 1 2) (simp add: emit_emit)
qed

subsection \<open>The sample world\<close>

lemma sample_shaders_ok: "shaders_ok (sample_env n palette)"
  by (simp add: shaders_ok_def sample_env_def unit_ok_def resolves_def)

lemma fill_line_5: "fill_line ''5=10,20,30,255'' =
    Some \<lparr>idx = 5, col_r = 10, col_g = 20, col_b = 30, col_a = 255\<rparr>"
  by (simp add: fill_line_def fill_def player_color_format_def scan_uint_def isspace_def
      isdigit_def decimal_value_def digit_value_def)

lemma sample_env_ok:
  "fill_lines palette = Some rows \<Longrightarrow> env_ok (sample_env n palette)"
  by (simp add: env_ok_def sample_shaders_ok player_color_rows_def)
     (simp add: sample_env_def sample_terrain_types_def)

subsection \<open>The channel map\<close>

lemma normalize_unat: "normalize c = real (unat c) / 255"
  by (simp only: normalize_def)

lemma normalize_less: "(normalize c < normalize d) = (c < d)"
proof -
  have "(normalize c < normalize d) = (real (unat c) < real (unat d))"
    unfolding normalize_unat by (simp only: divide_less_cancel) simp
  also have "\<dots> = (unat c < unat d)" by (rule of_nat_less_iff)
  also have "\<dots> = (c < d)" by (simp only: word_less_nat_alt)
  finally show ?thesis .
qed

lemma normalize_eq: "(normalize c = normalize d) = (c = d)"
proof -
  have "(normalize c = normalize d) = (real (unat c) = real (unat d))"
    unfolding normalize_unat by (simp only: divide_cancel_right) simp
  also have "\<dots> = (unat c = unat d)" by (rule of_nat_eq_iff)
  also have "\<dots> = (c = d)" by (simp only: word_unat_eq_iff)
  finally show ?thesis .
qed

lemma normalize_range:
  assumes "c \<le> 255"
  shows "0 \<le> normalize c \<and> normalize c \<le> 1"
proof -
  from assms have "unat c \<le> 255" by (simp add: word_le_nat_alt)
  then have "real (unat c) \<le> 255" by (simp only: of_nat_le_iff [symmetric, where ?'a = real] of_nat_numeral)
  moreover have "0 \<le> real (unat c)" by (rule of_nat_0_le_iff)
  ultimately show ?thesis unfolding normalize_unat by (simp only: divide_le_eq) simp
qed

lemma normalize_image:
  "normalize ` {c. c \<le> 255} = (\<lambda>k. real k / 255) ` {0..255}"
proof (intro set_eqI iffI)
  fix x assume "x \<in> normalize ` {c. c \<le> 255}"
  then obtain c :: "32 word" where c: "c \<le> 255" and x: "x = normalize c" by blast
  from c have "unat c \<le> 255" by (simp add: word_le_nat_alt)
  then have "unat c \<in> {0..255}" by simp
  then show "x \<in> (\<lambda>k. real k / 255) ` {0..255}"
    unfolding x normalize_unat by (rule imageI)
next
  fix x assume "x \<in> (\<lambda>k. real k / 255) ` {0..255}"
  then obtain k :: nat where k: "k \<le> 255" and x: "x = real k / 255" by auto
  define c :: "32 word" where "c = word_of_nat k"
  have u: "unat c = k" using k by (simp add: c_def unat_of_nat take_bit_nat_eq_self)
  then have "c \<le> 255" using k by (simp add: word_le_nat_alt)
  moreover have "x = normalize c" by (simp only: x normalize_unat u)
  ultimately show "x \<in> normalize ` {c. c \<le> 255}" by blast
qed

lemma normalize_bij:
  "bij_betw normalize {c. c \<le> 255} ((\<lambda>k. real k / 255) ` {0..255})"
  unfolding bij_betw_def
  by (intro conjI inj_onI normalize_image) (simp add: normalize_eq)

subsection \<open>The priority sort\<close>

lemma insert_by_priority_insort:
  "insert_by_priority t us = insort_key (\<lambda>t. - blend_priority t) t us"
  by (induction us) auto

lemma sort_by_priority_sort_key:
  "sort_by_priority ts = sort_key (\<lambda>t. - blend_priority t) ts"
  by (induction ts) (auto simp: insert_by_priority_insort)

lemma mset_sort_by_priority: "mset (sort_by_priority ts) = mset ts"
  by (simp add: sort_by_priority_sort_key)

lemma sorted_sort_by_priority:
  "sorted_wrt (\<lambda>t u. blend_priority u \<le> blend_priority t) (sort_by_priority ts)"
proof -
  have "sorted (map (\<lambda>t. - blend_priority t) (sort_by_priority ts))"
    by (simp add: sort_by_priority_sort_key)
  then show ?thesis by (simp add: sorted_map)
qed

lemma stable_sort_by_priority:
  "filter (\<lambda>t. blend_priority t = p) (sort_by_priority ts) = filter (\<lambda>t. blend_priority t = p) ts"
proof -
  have "filter (\<lambda>t. - blend_priority t = - p) (sort_key (\<lambda>t. - blend_priority t) ts)
      = filter (\<lambda>t. - blend_priority t = - p) ts"
    by (rule sort_key_stable)
  then show ?thesis by (simp add: sort_by_priority_sort_key)
qed

lemma higher_priority_first:
  assumes "sorted_wrt (\<lambda>t u. blend_priority u \<le> blend_priority t) S"
    and "ta \<in> set S" and "tb \<in> set S" and "blend_priority tb < blend_priority ta"
  shows "\<exists>xs ys zs. S = xs @ ta # ys @ tb # zs"
proof -
  from assms(2) obtain us vs where S: "S = us @ ta # vs" by (auto dest: split_list)
  have "tb \<notin> set us"
  proof
    assume "tb \<in> set us"
    with assms(1) S have "blend_priority ta \<le> blend_priority tb"
      by (auto simp: sorted_wrt_append)
    with assms(4) show False by simp
  qed
  moreover have "tb \<noteq> ta" using assms(4) by auto
  ultimately have "tb \<in> set vs" using assms(3) S by auto
  then obtain ys zs where "vs = ys @ tb # zs" by (auto dest: split_list)
  with S show ?thesis by blast
qed

lemma init_priority_ordering:
  assumes "init env s0 = Inr s"
  shows "\<exists>loaded. terrain_meta_file env = Some loaded \<and>
           priority_ordering (terrain s) = blend_priority_resolver loaded"
proof -
  from init_Inr [OF assms] obtain tt bm rows where
    "terrain_meta_file env = Some tt" and
    "s = s0\<lparr>terrain := built_terrain tt bm, log := log s0 @ init_trace env tt bm rows\<rparr>"
    by blast
  then show ?thesis
    by (simp add: built_terrain_def swept_from_def new_terrain_def)
qed

subsection \<open>The record of a run\<close>

lemma init_new_events:
  assumes "init env s0 = Inr s"
  shows "\<exists>tt bm rows. terrain_meta_file env = Some tt \<and> blending_meta_file env = Some bm \<and>
           player_color_rows env = Some rows \<and> shaders_ok env \<and>
           terrain s = built_terrain tt bm \<and>
           terrain_texture_count s = terrain_texture_count s0 \<and>
           blend_mode_count s = blend_mode_count s0 \<and>
           terrain_textures s = terrain_textures s0 \<and>
           blending_textures s = blending_textures s0 \<and>
           log s = log s0 @ init_trace env tt bm rows \<and>
           drop (length (log s0)) (log s) = init_trace env tt bm rows"
proof -
  from init_Inr [OF assms] obtain tt bm rows where
    "terrain_meta_file env = Some tt" "blending_meta_file env = Some bm"
    "player_color_rows env = Some rows" "shaders_ok env"
    "s = s0\<lparr>terrain := built_terrain tt bm, log := log s0 @ init_trace env tt bm rows\<rparr>"
    by blast
  then show ?thesis by auto
qed

lemma grid_calls_set_tile:
  "e \<in> set (grid_calls i) \<Longrightarrow> \<exists>pos texid. e = SetTile pos texid"
  by (auto simp: grid_calls_def row_calls_def)

lemma filter_grid_calls:
  "filter is_set_tile (grid_calls i) = grid_calls i"
  "filter gl_state_event (grid_calls i) = []"
  "filter lifecycle_event (grid_calls i) = []"
  "filter is_upload (grid_calls i) = []"
  by (auto simp: filter_empty_conv filter_id_conv dest: grid_calls_set_tile)



lemmas trace_defs =
  init_trace_def texture_trace_def metadata_trace_def grid_trace_def player_color_trace_def
  shader_trace_def units_trace_def unit_trace_def texture_shader_trace_def
  teamcolor_shader_trace_def alphamask_shader_trace_def release_trace_def callback_trace_def


lemma sample_init_succeeds:
  assumes "fill_lines palette = Some rows"
  shows "\<exists>s. init (sample_env n palette) s0 = Inr s"
  using init_succeeds [OF sample_env_ok [OF assms]] .

lemma built_terrain_fields:
  "get_size (built_terrain tt bm) = 20"
  "terrain_type_count (built_terrain tt bm) = length tt"
  "blending_mode_count (built_terrain tt bm) = length bm"
  "tiles (built_terrain tt bm) p =
     (if 0 \<le> ne p \<and> ne p < 20 \<and> 0 \<le> se p \<and> se p < 20 then Some (texid_at p) else None)"
  by (simp_all add: built_terrain_def swept_from_def new_terrain_def get_size_def)

lemma grid_calls_row_major:
  "grid_calls 0 =
     concat (map (\<lambda>i. map (\<lambda>j. SetTile \<lparr>ne = i, se = j\<rparr> (int (terrain_data ! nat i ! nat j)))
                         [0..19]) [0..19])"
  by (simp add: grid_calls_def row_calls_def texid_at_def)

subsection \<open>Uniform writes and the active program\<close>

lemma gl_state_event_inert:
  "\<not> gl_state_event e \<Longrightarrow> \<not> is_uniform_write e \<and> active_program active e = active"
  by (cases e) simp_all

lemma uniform_writes_filter:
  "uniform_writes active tr = uniform_writes active (filter gl_state_event tr)"
proof (induction tr arbitrary: active)
  case Nil
  show ?case by simp
next
  case (Cons e tr)
  show ?case
  proof (cases "gl_state_event e")
    case True
    then show ?thesis using Cons.IH [of "active_program active e"] by simp
  next
    case False
    from gl_state_event_inert [OF False, of active]
    show ?thesis using False Cons.IH [of active] by simp
  qed
qed

lemma uniform_location_resolved:
  "uniform_location env p name \<noteq> None \<Longrightarrow>
     uniform_location env p name = Some (uniform_id env p name)"
  by (auto simp: uniform_id_def)

lemma shaders_ok_uniforms:
  assumes "shaders_ok env"
  shows "uniform_location env Texture_shader ''texture'' =
           Some (uniform_id env Texture_shader ''texture'')"
    "uniform_location env Teamcolor_shader ''texture'' =
           Some (uniform_id env Teamcolor_shader ''texture'')"
    "uniform_location env Teamcolor_shader ''alpha_marker'' =
           Some (uniform_id env Teamcolor_shader ''alpha_marker'')"
    "uniform_location env Teamcolor_shader ''player_color'' =
           Some (uniform_id env Teamcolor_shader ''player_color'')"
    "uniform_location env Alphamask_shader ''base_texture'' =
           Some (uniform_id env Alphamask_shader ''base_texture'')"
    "uniform_location env Alphamask_shader ''mask_texture'' =
           Some (uniform_id env Alphamask_shader ''mask_texture'')"
  using assms by (auto simp: shaders_ok_def resolves_def intro!: uniform_location_resolved)

lemma init_uploads_table:
  assumes "init env s0 = Inr s"
  shows "\<exists>rows loc. player_color_rows env = Some rows \<and>
           uniform_location env Teamcolor_shader ''player_color'' = Some loc \<and>
           GlUniform4fv loc 64 (convert_player_colors rows) \<in> set (log s)"
proof -
  from init_Inr [OF assms] obtain tt bm rows where
    r: "player_color_rows env = Some rows" and ok: "shaders_ok env" and
    s: "s = s0\<lparr>terrain := built_terrain tt bm, log := log s0 @ init_trace env tt bm rows\<rparr>"
    by blast
  have "GlUniform4fv (uniform_id env Teamcolor_shader ''player_color'') 64
          (convert_player_colors rows) \<in> set (log s)"
    unfolding s by (simp add: init_trace_def shader_trace_def teamcolor_shader_trace_def)
  with r shaders_ok_uniforms(4) [OF ok] show ?thesis by blast
qed

lemma gl_state_init_trace:
  "filter gl_state_event (init_trace env tt bm rows) =
     [Use Texture_shader,
      GlUniform1i (uniform_id env Texture_shader ''texture'') 0,
      StopUsing Texture_shader,
      Use Teamcolor_shader,
      GlUniform1i (uniform_id env Teamcolor_shader ''texture'') 0,
      GlUniform1f (uniform_id env Teamcolor_shader ''alpha_marker'') (254 / 255),
      GlUniform4fv (uniform_id env Teamcolor_shader ''player_color'') 64
        (convert_player_colors rows),
      StopUsing Teamcolor_shader,
      Use Alphamask_shader,
      GlUniform1i (uniform_id env Alphamask_shader ''base_texture'') 0,
      GlUniform1i (uniform_id env Alphamask_shader ''mask_texture'') 1,
      StopUsing Alphamask_shader]"
  by (simp add: trace_defs filter_grid_calls)

subsection \<open>The life of the shader units\<close>

lemma lifecycle_init_trace:
  "filter lifecycle_event (init_trace env tt bm rows) = lifecycle_trace env"
  by (simp add: trace_defs filter_grid_calls lifecycle_trace_def)

lemma lifecycle_released_once:
  "count_list (lifecycle_trace env) (DeleteShader u) = 1"
  by (cases u) (simp_all add: lifecycle_trace_def)

lemma lifecycle_linked_once:
  "count_list (lifecycle_trace env) (Link p) = 1"
  by (cases p) (simp_all add: lifecycle_trace_def)

lemma lifecycle_link_precedes_release:
  "precedes (Link p) (DeleteShader u) (lifecycle_trace env)"
  by (cases p; cases u) (simp_all add: precedes_def after_first_def lifecycle_trace_def)

lemma lifecycle_not_retained:
  "filter (refers_to u) (after_first (DeleteShader u) (lifecycle_trace env)) = []"
  by (cases u) (simp_all add: after_first_def lifecycle_trace_def)

subsection \<open>The cells an upload reads\<close>

lemma filter_le_upt: "filter (\<lambda>j. n \<le> j) [0..<m] = [n..<m]"
proof (induction m)
  case 0
  show ?case by simp
next
  case (Suc m)
  show ?case
  proof (cases "n \<le> m")
    case True
    with Suc show ?thesis by simp
  next
    case False
    with Suc show ?thesis by simp
  qed
qed

lemma reads_past_end_upt:
  "reads_past_end n table = [length table..<n * 4]"
  by (simp add: reads_past_end_def filter_le_upt)

lemma upload_init_trace:
  "filter is_upload (init_trace env tt bm rows) =
     [GlUniform4fv (uniform_id env Teamcolor_shader ''player_color'') 64
        (convert_player_colors rows)]"
  by (simp add: trace_defs filter_grid_calls)

subsection \<open>What the palette loader accepts\<close>

lemma fill_result:
  "fst (fill by_line this) = 0 \<longleftrightarrow> length (sscanf player_color_format by_line) = 5"
  by (simp add: fill_def Let_def)

lemma fill_line_accepts:
  "fill_line by_line \<noteq> None \<longleftrightarrow> length (sscanf player_color_format by_line) = 5"
  by (simp add: fill_line_def fill_def Let_def)

lemma fill_lines_replicate:
  "fill_line by_line = Some l \<Longrightarrow> fill_lines (replicate n by_line) = Some (replicate n l)"
  by (induction n) simp_all

lemma fill_lines_accepts:
  "fill_lines lines \<noteq> None \<longleftrightarrow>
     list_all (\<lambda>l. length (sscanf player_color_format l) = 5) lines"
proof (induction lines)
  case Nil
  show ?case by simp
next
  case (Cons l lines)
  show ?case
  proof (cases "fill_line l")
    case None
    with fill_line_accepts [of l] show ?thesis by simp
  next
    case (Some x)
    with fill_line_accepts [of l] Cons show ?thesis by (auto split: option.splits)
  qed
qed

lemma player_color_rows_accepts:
  "player_color_rows env \<noteq> None \<longleftrightarrow>
     (\<exists>lines. player_color_palette env = Some lines \<and>
        list_all (\<lambda>l. length (sscanf player_color_format l) = 5) lines)"
proof (cases "player_color_palette env")
  case None
  then show ?thesis by (simp add: player_color_rows_def)
next
  case (Some lines)
  then have "player_color_rows env = fill_lines lines" by (simp add: player_color_rows_def)
  with Some fill_lines_accepts [of lines] show ?thesis by simp
qed

lemma convert_player_colors_cong:
  assumes "length rows = length rows'"
    and "\<And>k. k < length rows \<Longrightarrow> quad (rows ! k) = quad (rows' ! k)"
  shows "convert_player_colors rows = convert_player_colors rows'"
proof (rule nth_equalityI)
  show "length (convert_player_colors rows) = length (convert_player_colors rows')"
    by (simp add: convert_player_colors_length assms(1))
next
  fix j assume "j < length (convert_player_colors rows)"
  then have j: "j < length rows * 4" by (simp add: convert_player_colors_length)
  define k where "k = j div 4"
  define c where "c = j mod 4"
  have jk: "j = k * 4 + c" and k: "k < length rows" and c: "c < 4"
    using j by (simp_all add: k_def c_def less_mult_imp_div_less)
  have "convert_player_colors rows ! (k * 4 + c) = quad (rows ! k) ! c"
    unfolding convert_player_colors_def using k c by (subst convert_loop_nth) simp_all
  moreover have "convert_player_colors rows' ! (k * 4 + c) = quad (rows' ! k) ! c"
    unfolding convert_player_colors_def using k c assms(1) by (subst convert_loop_nth) simp_all
  ultimately show "convert_player_colors rows ! j = convert_player_colors rows' ! j"
    using assms(2) [OF k] by (simp add: jk)
qed

lemma convert_player_colors_idx:
  "convert_player_colors (map (\<lambda>l. l\<lparr>idx := f l\<rparr>) rows) = convert_player_colors rows"
  by (rule convert_player_colors_cong) (simp_all add: quad_def)

lemma init_succeeds_iff: "(\<exists>s. init env s0 = Inr s) \<longleftrightarrow> env_ok env"
proof
  assume "\<exists>s. init env s0 = Inr s"
  then obtain s where "init env s0 = Inr s" ..
  from init_Inr [OF this] obtain tt bm rows where
    tt: "terrain_meta_file env = Some tt" and bm: "blending_meta_file env = Some bm" and
    r: "player_color_rows env = Some rows" and ok: "shaders_ok env" and
    v: "\<forall>p. 0 \<le> ne p \<and> ne p < 20 \<and> 0 \<le> se p \<and> se p < 20 \<longrightarrow> texid_at p < int (length tt)"
    by blast
  from v have "texid_at \<lparr>ne = 5, se = 2\<rparr> < int (length tt)" by simp
  then have "20 < length tt" by (simp add: texid_at_def terrain_data_def)
  with tt bm r ok show "env_ok env" by (simp add: env_ok_def)
next
  assume "env_ok env"
  then show "\<exists>s. init env s0 = Inr s" by (rule init_succeeds)
qed

section \<open>Claim C1: the player-colour table\<close>

text \<open>
  Claim C1, as amended. Every loaded palette entry is converted channel by channel to
  \<open>c / 255\<close> and placed at the table slot of its position in the loaded file: the
  entry read from line \<open>k\<close> fills slot \<open>k\<close>, whatever its index field says, and the
  slots from \<open>pcolor_count\<close> on do not exist in the staging table. The table built
  this way is the one \<^verbatim>\<open>init\<close> hands to \<^verbatim>\<open>glUniform4fv\<close>. The channel map is strictly
  order preserving and injective, a bijection between the channel values 0 to 255
  and the 256 quotients \<open>k / 255\<close>, all in \<open>[0, 1]\<close>, with 0 sent to 0 and 255 to
  1. The line \<^verbatim>\<open>5=10,20,30,255\<close> parses to index 5 and channels 10, 20, 30, 255, which
  convert to \<open>(10/255, 20/255, 30/255, 1)\<close>.
\<close>

theorem player_color_slot_by_position:
  "(\<forall>k. k < length rows \<longrightarrow>
        slot (convert_player_colors rows) k = Some (normalized (rows ! k))) \<and>
   (\<forall>k. length rows \<le> k \<longrightarrow> slot (convert_player_colors rows) k = None) \<and>
   (\<forall>env s0 s. init env s0 = Inr s \<longrightarrow>
        (\<exists>loaded loc. player_color_rows env = Some loaded \<and>
           uniform_location env Teamcolor_shader ''player_color'' = Some loc \<and>
           GlUniform4fv loc 64 (convert_player_colors loaded) \<in> set (log s))) \<and>
   (\<forall>c d. (normalize c < normalize d) = (c < d)) \<and>
   (\<forall>c d. (normalize c = normalize d) = (c = d)) \<and>
   (\<forall>c. c \<le> 255 \<longrightarrow> 0 \<le> normalize c \<and> normalize c \<le> 1) \<and>
   bij_betw normalize {c. c \<le> 255} ((\<lambda>k. real k / 255) ` {0..255}) \<and>
   normalize 0 = 0 \<and> normalize 255 = 1 \<and>
   fill_line ''5=10,20,30,255'' =
     Some \<lparr>idx = 5, col_r = 10, col_g = 20, col_b = 30, col_a = 255\<rparr> \<and>
   normalized \<lparr>idx = 5, col_r = 10, col_g = 20, col_b = 30, col_a = 255\<rparr> =
     (10 / 255, 20 / 255, 30 / 255, 1)"
proof (intro conjI allI impI)
  show "slot (convert_player_colors rows) k = Some (normalized (rows ! k))"
    if "k < length rows" for k
    using that by (simp add: convert_player_colors_slot)
  show "slot (convert_player_colors rows) k = None" if "length rows \<le> k" for k
    using that by (simp add: convert_player_colors_slot)
  show "\<exists>loaded loc. player_color_rows env = Some loaded \<and>
           uniform_location env Teamcolor_shader ''player_color'' = Some loc \<and>
           GlUniform4fv loc 64 (convert_player_colors loaded) \<in> set (log s)"
    if "init env s0 = Inr s" for env s0 s
    using that by (rule init_uploads_table)
  show "(normalize c < normalize d) = (c < d)" for c d by (rule normalize_less)
  show "(normalize c = normalize d) = (c = d)" for c d by (rule normalize_eq)
  show "0 \<le> normalize c" "normalize c \<le> 1" if "c \<le> 255" for c
    using normalize_range [OF that] by simp_all
  show "bij_betw normalize {c. c \<le> 255} ((\<lambda>k. real k / 255) ` {0..255})"
    by (rule normalize_bij)
  show "normalize 0 = 0" "normalize 255 = 1" by (simp_all add: normalize_def)
  show "fill_line ''5=10,20,30,255'' =
     Some \<lparr>idx = 5, col_r = 10, col_g = 20, col_b = 30, col_a = 255\<rparr>"
    by (rule fill_line_5)
  show "normalized \<lparr>idx = 5, col_r = 10, col_g = 20, col_b = 30, col_a = 255\<rparr> =
     (10 / 255, 20 / 255, 30 / 255, 1)"
    by (simp add: normalized_def normalize_def)
qed

text \<open>The palette whose sixth line is \<^verbatim>\<open>5=10,20,30,255\<close>: that entry is in slot 5.\<close>

theorem player_color_slot_by_position_witness:
  "fill_lines [''0=0,0,0,255'', ''1=1,1,1,255'', ''2=2,2,2,255'', ''3=3,3,3,255'',
               ''4=4,4,4,255'', ''5=10,20,30,255''] =
     Some [\<lparr>idx = 0, col_r = 0, col_g = 0, col_b = 0, col_a = 255\<rparr>,
           \<lparr>idx = 1, col_r = 1, col_g = 1, col_b = 1, col_a = 255\<rparr>,
           \<lparr>idx = 2, col_r = 2, col_g = 2, col_b = 2, col_a = 255\<rparr>,
           \<lparr>idx = 3, col_r = 3, col_g = 3, col_b = 3, col_a = 255\<rparr>,
           \<lparr>idx = 4, col_r = 4, col_g = 4, col_b = 4, col_a = 255\<rparr>,
           \<lparr>idx = 5, col_r = 10, col_g = 20, col_b = 30, col_a = 255\<rparr>] \<and>
   slot (convert_player_colors
          [\<lparr>idx = 0, col_r = 0, col_g = 0, col_b = 0, col_a = 255\<rparr>,
           \<lparr>idx = 1, col_r = 1, col_g = 1, col_b = 1, col_a = 255\<rparr>,
           \<lparr>idx = 2, col_r = 2, col_g = 2, col_b = 2, col_a = 255\<rparr>,
           \<lparr>idx = 3, col_r = 3, col_g = 3, col_b = 3, col_a = 255\<rparr>,
           \<lparr>idx = 4, col_r = 4, col_g = 4, col_b = 4, col_a = 255\<rparr>,
           \<lparr>idx = 5, col_r = 10, col_g = 20, col_b = 30, col_a = 255\<rparr>]) 5 =
     Some (10 / 255, 20 / 255, 30 / 255, 1)"
proof -
  let ?rows = "[\<lparr>idx = 0, col_r = 0, col_g = 0, col_b = 0, col_a = 255\<rparr>,
           \<lparr>idx = 1, col_r = 1, col_g = 1, col_b = 1, col_a = 255\<rparr>,
           \<lparr>idx = 2, col_r = 2, col_g = 2, col_b = 2, col_a = 255\<rparr>,
           \<lparr>idx = 3, col_r = 3, col_g = 3, col_b = 3, col_a = 255\<rparr>,
           \<lparr>idx = 4, col_r = 4, col_g = 4, col_b = 4, col_a = 255\<rparr>,
           \<lparr>idx = 5, col_r = 10, col_g = 20, col_b = 30, col_a = (255 :: 32 word)\<rparr>]"
  have parse: "fill_lines [''0=0,0,0,255'', ''1=1,1,1,255'', ''2=2,2,2,255'', ''3=3,3,3,255'',
               ''4=4,4,4,255'', ''5=10,20,30,255''] = Some ?rows"
    by (simp add: fill_line_def fill_def player_color_format_def scan_uint_def isspace_def
        isdigit_def decimal_value_def digit_value_def)
  from player_color_slot_by_position [of ?rows]
  have "\<forall>k. k < length ?rows \<longrightarrow>
        slot (convert_player_colors ?rows) k = Some (normalized (?rows ! k))"
    by blast
  then have "5 < length ?rows \<longrightarrow>
        slot (convert_player_colors ?rows) 5 = Some (normalized (?rows ! 5))"
    by (rule spec)
  then have "slot (convert_player_colors ?rows) 5 = Some (10 / 255, 20 / 255, 30 / 255, 1)"
    by (simp add: normalized_def normalize_def)
  with parse show ?thesis by simp
qed

text \<open>Where the claim as first stated fails: a palette that consists of the one line
  \<^verbatim>\<open>5=10,20,30,255\<close> has its entry in slot 0, and the staging table has no slot 5;
  with the two lines \<^verbatim>\<open>1=255,0,0,255\<close> and \<^verbatim>\<open>0=0,0,255,255\<close>, slot 1 holds the colour
  of the entry whose index field is 0.\<close>

theorem player_color_slot_by_index_counterexample:
  "fill_lines [''5=10,20,30,255''] =
     Some [\<lparr>idx = 5, col_r = 10, col_g = 20, col_b = 30, col_a = 255\<rparr>] \<and>
   slot (convert_player_colors
     [\<lparr>idx = 5, col_r = 10, col_g = 20, col_b = 30, col_a = 255\<rparr>]) 5 = None \<and>
   slot (convert_player_colors
     [\<lparr>idx = 5, col_r = 10, col_g = 20, col_b = 30, col_a = 255\<rparr>]) 0 =
     Some (10 / 255, 20 / 255, 30 / 255, 1) \<and>
   fill_lines [''1=255,0,0,255'', ''0=0,0,255,255''] =
     Some [\<lparr>idx = 1, col_r = 255, col_g = 0, col_b = 0, col_a = 255\<rparr>,
           \<lparr>idx = 0, col_r = 0, col_g = 0, col_b = 255, col_a = 255\<rparr>] \<and>
   slot (convert_player_colors
     [\<lparr>idx = 1, col_r = 255, col_g = 0, col_b = 0, col_a = 255\<rparr>,
      \<lparr>idx = 0, col_r = 0, col_g = 0, col_b = 255, col_a = 255\<rparr>]) 1 = Some (0, 0, 1, 1)"
proof -
  have "fill_lines [''5=10,20,30,255''] =
     Some [\<lparr>idx = 5, col_r = 10, col_g = 20, col_b = 30, col_a = 255\<rparr>]"
    by (simp add: fill_line_5)
  moreover have "fill_lines [''1=255,0,0,255'', ''0=0,0,255,255''] =
     Some [\<lparr>idx = 1, col_r = 255, col_g = 0, col_b = 0, col_a = 255\<rparr>,
           \<lparr>idx = 0, col_r = 0, col_g = 0, col_b = 255, col_a = 255\<rparr>]"
    by (simp add: fill_line_def fill_def player_color_format_def scan_uint_def isspace_def
        isdigit_def decimal_value_def digit_value_def)
  ultimately show ?thesis
    by (simp add: convert_player_colors_slot normalized_def normalize_def)
qed

section \<open>Claim C2: the priority ordering\<close>

text \<open>
  Claim C2. The terrain that \<^verbatim>\<open>init\<close> builds carries the PriorityOrdering of the
  loaded terrain-type table. For every table \<open>tt\<close> the ordering holds the ids of the
  table with their multiplicities, so each id exactly once when the table's ids are
  distinct; a record of strictly greater \<open>blend_priority\<close> has its id before that of
  any record of smaller priority; the records of one priority keep their table order;
  and the empty table yields the empty ordering.
\<close>

theorem priority_ordering_valid:
  "(\<forall>env s0 s. init env s0 = Inr s \<longrightarrow>
      (\<exists>loaded. terrain_meta_file env = Some loaded \<and>
         priority_ordering (terrain s) = blend_priority_resolver loaded)) \<and>
   mset (blend_priority_resolver tt) = mset (map terrain_id tt) \<and>
   (distinct (map terrain_id tt) \<longrightarrow> distinct (blend_priority_resolver tt)) \<and>
   (\<forall>ta tb. ta \<in> set tt \<and> tb \<in> set tt \<and> blend_priority tb < blend_priority ta \<longrightarrow>
      (\<exists>xs ys zs. blend_priority_resolver tt = xs @ terrain_id ta # ys @ terrain_id tb # zs)) \<and>
   blend_priority_resolver tt = map terrain_id (sort_by_priority tt) \<and>
   (\<forall>p. filter (\<lambda>t. blend_priority t = p) (sort_by_priority tt) =
         filter (\<lambda>t. blend_priority t = p) tt) \<and>
   blend_priority_resolver [] = [] \<and>
   priority_ordering (new_terrain 20 0 [] 0 []) = []"
proof (intro conjI allI impI)
  show "\<exists>loaded. terrain_meta_file env = Some loaded \<and>
         priority_ordering (terrain s) = blend_priority_resolver loaded"
    if "init env s0 = Inr s" for env s0 s
    using that by (rule init_priority_ordering)
  show m: "mset (blend_priority_resolver tt) = mset (map terrain_id tt)"
    by (simp add: blend_priority_resolver_def mset_sort_by_priority)
  show "distinct (blend_priority_resolver tt)" if "distinct (map terrain_id tt)"
    using that m by (metis mset_eq_imp_distinct_iff)
  show "\<exists>xs ys zs. blend_priority_resolver tt = xs @ terrain_id ta # ys @ terrain_id tb # zs"
    if "ta \<in> set tt \<and> tb \<in> set tt \<and> blend_priority tb < blend_priority ta" for ta tb
  proof -
    have "ta \<in> set (sort_by_priority tt)" "tb \<in> set (sort_by_priority tt)"
      using that mset_sort_by_priority [of tt] by (metis set_mset_mset)+
    from higher_priority_first [OF sorted_sort_by_priority this] that
    obtain xs ys zs where "sort_by_priority tt = xs @ ta # ys @ tb # zs" by blast
    then have "blend_priority_resolver tt =
        map terrain_id xs @ terrain_id ta # map terrain_id ys @ terrain_id tb # map terrain_id zs"
      by (simp add: blend_priority_resolver_def)
    then show ?thesis by blast
  qed
  show "blend_priority_resolver tt = map terrain_id (sort_by_priority tt)"
    by (simp add: blend_priority_resolver_def)
  show "filter (\<lambda>t. blend_priority t = p) (sort_by_priority tt) =
         filter (\<lambda>t. blend_priority t = p) tt" for p
    by (rule stable_sort_by_priority)
  show "blend_priority_resolver [] = []"
    by (simp add: blend_priority_resolver_def)
  show "priority_ordering (new_terrain 20 0 [] 0 []) = []"
    by (simp add: new_terrain_def blend_priority_resolver_def)
qed

text \<open>Four terrain types with the priorities 1, 5, 1, 5: the ordering is 1, 3, 0, 2.\<close>

theorem priority_ordering_valid_witness:
  "blend_priority_resolver
     [\<lparr>terrain_id = 0, blend_priority = 1\<rparr>, \<lparr>terrain_id = 1, blend_priority = 5\<rparr>,
      \<lparr>terrain_id = 2, blend_priority = 1\<rparr>, \<lparr>terrain_id = 3, blend_priority = 5\<rparr>] = [1, 3, 0, 2] \<and>
   distinct (blend_priority_resolver
     [\<lparr>terrain_id = 0, blend_priority = 1\<rparr>, \<lparr>terrain_id = 1, blend_priority = 5\<rparr>,
      \<lparr>terrain_id = 2, blend_priority = 1\<rparr>, \<lparr>terrain_id = 3, blend_priority = 5\<rparr>]) \<and>
   (\<exists>xs ys zs. blend_priority_resolver
     [\<lparr>terrain_id = 0, blend_priority = 1\<rparr>, \<lparr>terrain_id = 1, blend_priority = 5\<rparr>,
      \<lparr>terrain_id = 2, blend_priority = 1\<rparr>, \<lparr>terrain_id = 3, blend_priority = 5\<rparr>] =
        xs @ 3 # ys @ 0 # zs)"
proof -
  let ?tt = "[\<lparr>terrain_id = 0, blend_priority = 1\<rparr>, \<lparr>terrain_id = 1, blend_priority = 5\<rparr>,
      \<lparr>terrain_id = 2, blend_priority = 1\<rparr>, \<lparr>terrain_id = 3, blend_priority = 5\<rparr>]"
  note valid = priority_ordering_valid [of ?tt]
  from valid have "distinct (map terrain_id ?tt) \<longrightarrow> distinct (blend_priority_resolver ?tt)"
    by blast
  then have d: "distinct (blend_priority_resolver ?tt)" by simp
  from valid have "\<forall>ta tb. ta \<in> set ?tt \<and> tb \<in> set ?tt \<and> blend_priority tb < blend_priority ta \<longrightarrow>
      (\<exists>xs ys zs. blend_priority_resolver ?tt = xs @ terrain_id ta # ys @ terrain_id tb # zs)"
    by blast
  then have "\<lparr>terrain_id = 3, blend_priority = 5\<rparr> \<in> set ?tt \<and>
       \<lparr>terrain_id = 0, blend_priority = 1\<rparr> \<in> set ?tt \<and>
       blend_priority \<lparr>terrain_id = 0, blend_priority = 1\<rparr> < blend_priority \<lparr>terrain_id = 3, blend_priority = 5\<rparr> \<longrightarrow>
      (\<exists>xs ys zs. blend_priority_resolver ?tt =
         xs @ terrain_id \<lparr>terrain_id = 3, blend_priority = 5\<rparr> # ys @
         terrain_id \<lparr>terrain_id = 0, blend_priority = 1\<rparr> # zs)"
    by blast
  then have e: "\<exists>xs ys zs. blend_priority_resolver ?tt = xs @ 3 # ys @ 0 # zs" by simp
  have "blend_priority_resolver ?tt = [1, 3, 0, 2]"
    by (simp add: blend_priority_resolver_def)
  with d e show ?thesis by blast
qed

section \<open>Claim C3: the order of initialisation\<close>



section \<open>Claim C4: teardown\<close>

text \<open>
  Claim C4 says that teardown releases the standalone textures, the three shader
  programs, every entry of the two texture arrays and then the priority-ordering
  array, the two loops being bounded by the texture counts recorded at load time.
  The code does not do this. The theorem runs \<^verbatim>\<open>init\<close> to its end in two sample worlds
  and then runs \<^verbatim>\<open>destroy\<close>.

  In the first world the load returns 21 terrain types and 9 blending modes. After
  \<^verbatim>\<open>init\<close> the pointers \<^verbatim>\<open>terrain_textures\<close> and \<^verbatim>\<open>blending_textures\<close> are still null, and
  \<^verbatim>\<open>blend_mode_count\<close> is 9. Whatever the value \<open>n\<close> of \<^verbatim>\<open>terrain_texture_count\<close> when
  \<^verbatim>\<open>destroy\<close> starts, \<^verbatim>\<open>destroy\<close> deletes the two standalone textures and the three
  programs and then stops at the read of an array entry through a null pointer (line
  207 when \<open>n\<close> is positive, line 210 otherwise): no array entry is released and
  \<^verbatim>\<open>delete[] terrain_priority_list\<close> is not reached.

  In the second world the load returns 21 terrain types and 5 blending modes, and the
  two arrays are taken to have been allocated elsewhere with one entry per loaded
  terrain type and per loaded blending mode. \<^verbatim>\<open>blend_mode_count\<close> is still 9, not the 5
  that the load returned: \<^verbatim>\<open>destroy\<close> deletes the 21 and the 5 entries and then stops at
  the read of \<^verbatim>\<open>blending_textures[5]\<close>, beyond the end of the array.
\<close>

theorem destroy_after_init_faults:
  "(case init (sample_env 9 []) (initial_state 0) of
      Inl e \<Rightarrow> False
    | Inr s \<Rightarrow>
        terrain_textures s = None \<and> blending_textures s = None \<and> blend_mode_count s = 9 \<and>
        (\<forall>n. fst (destroy (s\<lparr>terrain_texture_count := n\<rparr>)) = Inl UndefinedBehaviour \<and>
             drop (length (log s)) (log (snd (destroy (s\<lparr>terrain_texture_count := n\<rparr>)))) =
               [DeleteTexture Gaben, DeleteTexture University,
                DeleteProgram Texture_shader, DeleteProgram Teamcolor_shader,
                DeleteProgram Alphamask_shader])) \<and>
   (case init (sample_env 5 []) (initial_state 0) of
      Inl e \<Rightarrow> False
    | Inr s \<Rightarrow>
        NewTerrain 20 21 5 \<in> set (log s) \<and> blending_mode_count (terrain s) = 5 \<and>
        blend_mode_count s = 9 \<and>
        fst (destroy (s\<lparr>terrain_texture_count := 21, terrain_textures := Some [0..<21],
                        blending_textures := Some [0..<5]\<rparr>)) = Inl UndefinedBehaviour \<and>
        drop (length (log s))
          (log (snd (destroy (s\<lparr>terrain_texture_count := 21, terrain_textures := Some [0..<21],
                                 blending_textures := Some [0..<5]\<rparr>)))) =
          [DeleteTexture Gaben, DeleteTexture University,
           DeleteProgram Texture_shader, DeleteProgram Teamcolor_shader,
           DeleteProgram Alphamask_shader] @
          map DeleteTerrainTexture [0..<21] @ map DeleteBlendingTexture [0..<5])"
proof -
  have e: "fill_lines [] = Some []" by simp
  from sample_init_succeeds [OF e] obtain s where
    s: "init (sample_env 9 []) (initial_state 0) = Inr s" by blast
  from init_new_events [OF s] have
    p: "terrain_textures s = None" "blending_textures s = None" "blend_mode_count s = 9"
    by (auto simp: initial_state_def)
  have d: "destroy (s\<lparr>terrain_texture_count := n\<rparr>) =
     (Inl UndefinedBehaviour,
      emit [DeleteTexture Gaben, DeleteTexture University,
            DeleteProgram Texture_shader, DeleteProgram Teamcolor_shader,
            DeleteProgram Alphamask_shader] (s\<lparr>terrain_texture_count := n\<rparr>))" for n
    by (rule destroy_null_arrays) (simp_all add: p)
  have 1: "case init (sample_env 9 []) (initial_state 0) of
      Inl e \<Rightarrow> False
    | Inr s \<Rightarrow>
        terrain_textures s = None \<and> blending_textures s = None \<and> blend_mode_count s = 9 \<and>
        (\<forall>n. fst (destroy (s\<lparr>terrain_texture_count := n\<rparr>)) = Inl UndefinedBehaviour \<and>
             drop (length (log s)) (log (snd (destroy (s\<lparr>terrain_texture_count := n\<rparr>)))) =
               [DeleteTexture Gaben, DeleteTexture University,
                DeleteProgram Texture_shader, DeleteProgram Teamcolor_shader,
                DeleteProgram Alphamask_shader])"
    by (simp add: s p d emit_def)
  from sample_init_succeeds [OF e] obtain t where
    t: "init (sample_env 5 []) (initial_state 0) = Inr t" by blast
  from init_new_events [OF t] obtain tt bm rows where
    tt: "terrain_meta_file (sample_env 5 []) = Some tt" and
    bm: "blending_meta_file (sample_env 5 []) = Some bm" and
    tr: "terrain t = built_terrain tt bm" and
    c: "blend_mode_count t = blend_mode_count (initial_state 0)" and
    l: "log t = log (initial_state 0) @ init_trace (sample_env 5 []) tt bm rows"
    by blast
  from tt bm have n: "length tt = 21" "length bm = 5"
    by (auto simp: sample_env_def sample_terrain_types_def)
  have q: "NewTerrain 20 21 5 \<in> set (log t)" "blending_mode_count (terrain t) = 5"
    "blend_mode_count t = 9"
    unfolding l by (simp_all add: init_trace_def grid_trace_def n tr built_terrain_fields c
        initial_state_def)
  let ?t = "t\<lparr>terrain_texture_count := 21, terrain_textures := Some [0..<21],
              blending_textures := Some [0..<5]\<rparr>"
  have "destroy ?t =
     (Inl UndefinedBehaviour,
      emit ([DeleteTexture Gaben, DeleteTexture University,
             DeleteProgram Texture_shader, DeleteProgram Teamcolor_shader,
             DeleteProgram Alphamask_shader] @
            map DeleteTerrainTexture [0..<terrain_texture_count ?t] @
            map DeleteBlendingTexture [0..<length [0..<5::nat]]) ?t)"
    by (rule destroy_short_blending [where tx = "[0..<21]"]) (simp_all add: q)
  then have 2: "case init (sample_env 5 []) (initial_state 0) of
      Inl e \<Rightarrow> False
    | Inr s \<Rightarrow>
        NewTerrain 20 21 5 \<in> set (log s) \<and> blending_mode_count (terrain s) = 5 \<and>
        blend_mode_count s = 9 \<and>
        fst (destroy (s\<lparr>terrain_texture_count := 21, terrain_textures := Some [0..<21],
                        blending_textures := Some [0..<5]\<rparr>)) = Inl UndefinedBehaviour \<and>
        drop (length (log s))
          (log (snd (destroy (s\<lparr>terrain_texture_count := 21, terrain_textures := Some [0..<21],
                                 blending_textures := Some [0..<5]\<rparr>)))) =
          [DeleteTexture Gaben, DeleteTexture University,
           DeleteProgram Texture_shader, DeleteProgram Teamcolor_shader,
           DeleteProgram Alphamask_shader] @
          map DeleteTerrainTexture [0..<21] @ map DeleteBlendingTexture [0..<5]"
    by (simp add: t q emit_def del: upt_Suc)
  from 1 2 show ?thesis by (rule conjI)
qed

section \<open>Claim C5: the sweep over the tile matrix\<close>

text \<open>
  Claim C5. In every run of \<^verbatim>\<open>init\<close> that reaches its end, the calls of \<^verbatim>\<open>set_tile\<close>
  are exactly one per cell of the 20 by 20 tile matrix, in row-major order (row
  \<^verbatim>\<open>ne\<close> by row, each row from \<^verbatim>\<open>se = 0\<close> to 19), each with the matrix entry of its
  cell. Afterwards every cell of the grid holds the matrix entry of its position,
  which is an id below the count of loaded terrain types. The entries of the matrix
  are the ids 3, 7, 9, 11, 12, 13, 14, 17, 18, 19 and 20; cell (0,0) holds 7 and
  cell (5,2) holds 20.
\<close>

theorem terrain_grid_sweep:
  assumes "init env s0 = Inr s"
  shows "filter is_set_tile (drop (length (log s0)) (log s)) =
      concat (map (\<lambda>i. map (\<lambda>j. SetTile \<lparr>ne = i, se = j\<rparr> (int (terrain_data ! nat i ! nat j)))
                          [0..19]) [0..19]) \<and>
    get_size (terrain s) = 20 \<and>
    (\<forall>i j. 0 \<le> i \<and> i < 20 \<and> 0 \<le> j \<and> j < 20 \<longrightarrow>
       tiles (terrain s) \<lparr>ne = i, se = j\<rparr> = Some (int (terrain_data ! nat i ! nat j)) \<and>
       0 \<le> int (terrain_data ! nat i ! nat j) \<and>
       int (terrain_data ! nat i ! nat j) < int (terrain_type_count (terrain s))) \<and>
    set (concat terrain_data) = {3, 7, 9, 11, 12, 13, 14, 17, 18, 19, 20} \<and>
    tiles (terrain s) \<lparr>ne = 0, se = 0\<rparr> = Some 7 \<and>
    tiles (terrain s) \<lparr>ne = 5, se = 2\<rparr> = Some 20"
proof -
  from init_Inr [OF assms] obtain tt bm rows where
    v: "\<forall>p. 0 \<le> ne p \<and> ne p < 20 \<and> 0 \<le> se p \<and> se p < 20 \<longrightarrow> texid_at p < int (length tt)" and
    s: "s = s0\<lparr>terrain := built_terrain tt bm, log := log s0 @ init_trace env tt bm rows\<rparr>"
    by blast
  have t: "terrain s = built_terrain tt bm" and
    d: "drop (length (log s0)) (log s) = init_trace env tt bm rows"
    by (simp_all add: s)
  have 1: "filter is_set_tile (drop (length (log s0)) (log s)) =
      concat (map (\<lambda>i. map (\<lambda>j. SetTile \<lparr>ne = i, se = j\<rparr> (int (terrain_data ! nat i ! nat j)))
                          [0..19]) [0..19])"
    unfolding d by (simp add: trace_defs filter_grid_calls) (rule grid_calls_row_major)
  have 2: "get_size (terrain s) = 20" by (simp add: t built_terrain_fields)
  have 3: "tiles (terrain s) \<lparr>ne = i, se = j\<rparr> = Some (int (terrain_data ! nat i ! nat j)) \<and>
       0 \<le> int (terrain_data ! nat i ! nat j) \<and>
       int (terrain_data ! nat i ! nat j) < int (terrain_type_count (terrain s))"
    if "0 \<le> i \<and> i < 20 \<and> 0 \<le> j \<and> j < 20" for i j
  proof -
    from v that have "texid_at \<lparr>ne = i, se = j\<rparr> < int (length tt)" by simp
    with that show ?thesis by (simp add: t built_terrain_fields texid_at_def)
  qed
  have 4: "set (concat terrain_data) = {3, 7, 9, 11, 12, 13, 14, 17, 18, 19, 20}"
    by (simp add: terrain_data_def) blast
  have 5: "tiles (terrain s) \<lparr>ne = 0, se = 0\<rparr> = Some 7"
    by (simp add: t built_terrain_fields texid_at_def terrain_data_def)
  have 6: "tiles (terrain s) \<lparr>ne = 5, se = 2\<rparr> = Some 20"
    by (simp add: t built_terrain_fields texid_at_def terrain_data_def)
  from 1 2 3 4 5 6 show ?thesis by blast
qed

text \<open>A run in the sample world: 400 calls of \<^verbatim>\<open>set_tile\<close>, and the corner cells and
  cell (5,2) as the matrix has them.\<close>

theorem terrain_grid_sweep_witness:
  "\<exists>s. init (sample_env 9 []) (initial_state 0) = Inr s \<and>
     length (filter is_set_tile (log s)) = 400 \<and>
     tiles (terrain s) \<lparr>ne = 0, se = 0\<rparr> = Some 7 \<and>
     tiles (terrain s) \<lparr>ne = 5, se = 2\<rparr> = Some 20 \<and>
     tiles (terrain s) \<lparr>ne = 19, se = 19\<rparr> = Some 7 \<and>
     terrain_type_count (terrain s) = 21"
proof -
  have "fill_lines [] = Some []" by simp
  from sample_init_succeeds [OF this] obtain s where
    s: "init (sample_env 9 []) (initial_state 0) = Inr s" by blast
  note sweep = terrain_grid_sweep [OF s]
  from sweep have calls: "filter is_set_tile (drop (length (log (initial_state 0))) (log s)) =
      concat (map (\<lambda>i. map (\<lambda>j. SetTile \<lparr>ne = i, se = j\<rparr> (int (terrain_data ! nat i ! nat j)))
                          [0..19]) [0..19])"
    by blast
  have "length (filter is_set_tile (drop (length (log (initial_state 0))) (log s))) = 400"
    unfolding calls by (simp add: length_concat comp_def sum_list_triv)
  then have n: "length (filter is_set_tile (log s)) = 400" by (simp add: initial_state_def)
  from sweep have c: "tiles (terrain s) \<lparr>ne = 0, se = 0\<rparr> = Some 7"
    "tiles (terrain s) \<lparr>ne = 5, se = 2\<rparr> = Some 20" by blast+
  from sweep have "\<forall>i j. 0 \<le> i \<and> i < 20 \<and> 0 \<le> j \<and> j < 20 \<longrightarrow>
       tiles (terrain s) \<lparr>ne = i, se = j\<rparr> = Some (int (terrain_data ! nat i ! nat j)) \<and>
       0 \<le> int (terrain_data ! nat i ! nat j) \<and>
       int (terrain_data ! nat i ! nat j) < int (terrain_type_count (terrain s))"
    by blast
  then have "tiles (terrain s) \<lparr>ne = 19, se = 19\<rparr> = Some (int (terrain_data ! nat 19 ! nat 19))"
    by simp
  then have l: "tiles (terrain s) \<lparr>ne = 19, se = 19\<rparr> = Some 7"
    by (simp add: terrain_data_def)
  from init_new_events [OF s] have "terrain_type_count (terrain s) = 21"
    by (auto simp: built_terrain_fields sample_env_def sample_terrain_types_def)
  with s n c l show ?thesis by blast
qed

section \<open>Claim C6: an invalid terrain id\<close>

text \<open>
  Claim C6. For every position and every terrain-type id outside
  \<open>[0, terrain_type_count)\<close>, \<^verbatim>\<open>set_tile\<close> fails with InvalidTerrainId and returns the
  terrain exactly as it received it: no cell is changed by the failing call. The
  failure arises for those ids only.
\<close>

theorem set_tile_invalid_id:
  "(texid < 0 \<or> int (terrain_type_count t) \<le> texid \<longrightarrow>
      set_tile pos texid t = (Inl InvalidTerrainId, t)) \<and>
   (fst (set_tile pos texid t) = Inl InvalidTerrainId \<longleftrightarrow>
      texid < 0 \<or> int (terrain_type_count t) \<le> texid) \<and>
   (fst (set_tile pos texid t) = Inl InvalidTerrainId \<longrightarrow>
      tiles (snd (set_tile pos texid t)) = tiles t)"
  by (simp add: set_tile_def)

text \<open>On a terrain with 21 terrain types, the ids 21 and \<open>-1\<close> are refused and the id 20
  is accepted.\<close>

theorem set_tile_invalid_id_witness:
  "set_tile \<lparr>ne = 3, se = 4\<rparr> 21
     (new_terrain 20 21 (replicate 21 \<lparr>terrain_id = 0, blend_priority = 0\<rparr>) 9 []) =
   (Inl InvalidTerrainId,
     new_terrain 20 21 (replicate 21 \<lparr>terrain_id = 0, blend_priority = 0\<rparr>) 9 []) \<and>
   set_tile \<lparr>ne = 3, se = 4\<rparr> (- 1)
     (new_terrain 20 21 (replicate 21 \<lparr>terrain_id = 0, blend_priority = 0\<rparr>) 9 []) =
   (Inl InvalidTerrainId,
     new_terrain 20 21 (replicate 21 \<lparr>terrain_id = 0, blend_priority = 0\<rparr>) 9 []) \<and>
   fst (set_tile \<lparr>ne = 3, se = 4\<rparr> 20
     (new_terrain 20 21 (replicate 21 \<lparr>terrain_id = 0, blend_priority = 0\<rparr>) 9 [])) = Inr ()"
  using set_tile_invalid_id [of 21 "new_terrain 20 21 (replicate 21 \<lparr>terrain_id = 0, blend_priority = 0\<rparr>) 9 []" "\<lparr>ne = 3, se = 4\<rparr>"]
    set_tile_invalid_id [of "- 1" "new_terrain 20 21 (replicate 21 \<lparr>terrain_id = 0, blend_priority = 0\<rparr>) 9 []" "\<lparr>ne = 3, se = 4\<rparr>"]
  by (simp add: new_terrain_def set_tile_def on_grid_def)

section \<open>Claim C7: the release of the shader units\<close>

text \<open>
  Claim C7. In every run of \<^verbatim>\<open>init\<close> that reaches its end, the five shader units are
  created, the three programs are created and linked (the plain-texture vertex unit
  goes into both the plain-texture and the team-colour program), and then the five
  units are deleted. Each unit is deleted exactly once; the deletion comes after
  the link of every program built from the unit; and nothing after the deletion
  refers to the unit again. The plain-texture vertex unit is deleted once, after
  the links of both programs that use it.
\<close>

theorem shader_units_released_after_linking:
  assumes "init env s0 = Inr s"
  shows "(\<exists>code1 code2 code3 code4 code5.
      filter lifecycle_event (drop (length (log s0)) (log s)) =
        [NewShader Plaintexture_vert GL_VERTEX_SHADER code1,
         NewShader Plaintexture_frag GL_FRAGMENT_SHADER code2,
         NewShader Teamcolor_frag GL_FRAGMENT_SHADER code3,
         NewShader Alphamask_vert GL_VERTEX_SHADER code4,
         NewShader Alphamask_frag GL_FRAGMENT_SHADER code5,
         NewProgram Texture_shader Plaintexture_vert Plaintexture_frag,
         Link Texture_shader,
         NewProgram Teamcolor_shader Plaintexture_vert Teamcolor_frag,
         Link Teamcolor_shader,
         NewProgram Alphamask_shader Alphamask_vert Alphamask_frag,
         Link Alphamask_shader,
         DeleteShader Plaintexture_vert, DeleteShader Plaintexture_frag,
         DeleteShader Teamcolor_frag, DeleteShader Alphamask_vert,
         DeleteShader Alphamask_frag]) \<and>
    (\<forall>u. count_list (filter lifecycle_event (drop (length (log s0)) (log s))) (DeleteShader u) = 1) \<and>
    (\<forall>p. count_list (filter lifecycle_event (drop (length (log s0)) (log s))) (Link p) = 1) \<and>
    (\<forall>u p v f.
       NewProgram p v f \<in> set (filter lifecycle_event (drop (length (log s0)) (log s))) \<and>
       (v = u \<or> f = u) \<longrightarrow>
       precedes (Link p) (DeleteShader u) (filter lifecycle_event (drop (length (log s0)) (log s)))) \<and>
    (\<forall>u. filter (refers_to u)
           (after_first (DeleteShader u) (filter lifecycle_event (drop (length (log s0)) (log s)))) = []) \<and>
    precedes (Link Texture_shader) (DeleteShader Plaintexture_vert)
      (filter lifecycle_event (drop (length (log s0)) (log s))) \<and>
    precedes (Link Teamcolor_shader) (DeleteShader Plaintexture_vert)
      (filter lifecycle_event (drop (length (log s0)) (log s)))"
proof -
  from init_new_events [OF assms] obtain tt bm rows where
    "drop (length (log s0)) (log s) = init_trace env tt bm rows"
    by blast
  then have f: "filter lifecycle_event (drop (length (log s0)) (log s)) = lifecycle_trace env"
    by (simp only: lifecycle_init_trace)
  show ?thesis
    unfolding f
    by (intro conjI allI impI lifecycle_released_once lifecycle_linked_once
        lifecycle_link_precedes_release lifecycle_not_retained)
       (simp add: lifecycle_trace_def)
qed

text \<open>A run in the sample world and its creations, links and deletions.\<close>

theorem shader_units_released_after_linking_witness:
  "\<exists>s. init (sample_env 9 []) (initial_state 0) = Inr s \<and>
     count_list (filter lifecycle_event (log s)) (DeleteShader Plaintexture_vert) = 1 \<and>
     precedes (Link Texture_shader) (DeleteShader Plaintexture_vert)
       (filter lifecycle_event (log s)) \<and>
     precedes (Link Teamcolor_shader) (DeleteShader Plaintexture_vert)
       (filter lifecycle_event (log s)) \<and>
     filter lifecycle_event (log s) =
        [NewShader Plaintexture_vert GL_VERTEX_SHADER ''void main() {}'',
         NewShader Plaintexture_frag GL_FRAGMENT_SHADER ''void main() {}'',
         NewShader Teamcolor_frag GL_FRAGMENT_SHADER ''void main() {}'',
         NewShader Alphamask_vert GL_VERTEX_SHADER ''void main() {}'',
         NewShader Alphamask_frag GL_FRAGMENT_SHADER ''void main() {}'',
         NewProgram Texture_shader Plaintexture_vert Plaintexture_frag,
         Link Texture_shader,
         NewProgram Teamcolor_shader Plaintexture_vert Teamcolor_frag,
         Link Teamcolor_shader,
         NewProgram Alphamask_shader Alphamask_vert Alphamask_frag,
         Link Alphamask_shader,
         DeleteShader Plaintexture_vert, DeleteShader Plaintexture_frag,
         DeleteShader Teamcolor_frag, DeleteShader Alphamask_vert,
         DeleteShader Alphamask_frag]"
proof -
  have "fill_lines [] = Some []" by simp
  from sample_init_succeeds [OF this] obtain s where
    s: "init (sample_env 9 []) (initial_state 0) = Inr s" by blast
  have l: "drop (length (log (initial_state 0))) (log s) = log s"
    by (simp add: initial_state_def)
  note released = shader_units_released_after_linking [OF s, unfolded l]
  from released have 1:
    "count_list (filter lifecycle_event (log s)) (DeleteShader Plaintexture_vert) = 1"
    "precedes (Link Texture_shader) (DeleteShader Plaintexture_vert)
       (filter lifecycle_event (log s))"
    "precedes (Link Teamcolor_shader) (DeleteShader Plaintexture_vert)
       (filter lifecycle_event (log s))"
    by blast+
  from init_new_events [OF s] l obtain tt bm rows where
    "log s = init_trace (sample_env 9 []) tt bm rows" by auto
  then have "filter lifecycle_event (log s) = lifecycle_trace (sample_env 9 [])"
    by (simp only: lifecycle_init_trace)
  then have 2: "filter lifecycle_event (log s) =
        [NewShader Plaintexture_vert GL_VERTEX_SHADER ''void main() {}'',
         NewShader Plaintexture_frag GL_FRAGMENT_SHADER ''void main() {}'',
         NewShader Teamcolor_frag GL_FRAGMENT_SHADER ''void main() {}'',
         NewShader Alphamask_vert GL_VERTEX_SHADER ''void main() {}'',
         NewShader Alphamask_frag GL_FRAGMENT_SHADER ''void main() {}'',
         NewProgram Texture_shader Plaintexture_vert Plaintexture_frag,
         Link Texture_shader,
         NewProgram Teamcolor_shader Plaintexture_vert Teamcolor_frag,
         Link Teamcolor_shader,
         NewProgram Alphamask_shader Alphamask_vert Alphamask_frag,
         Link Alphamask_shader,
         DeleteShader Plaintexture_vert, DeleteShader Plaintexture_frag,
         DeleteShader Teamcolor_frag, DeleteShader Alphamask_vert,
         DeleteShader Alphamask_frag]"
    by (simp add: lifecycle_trace_def shader_code_def sample_env_def)
  from s 1 2 show ?thesis by blast
qed

section \<open>Claim C8: the seeding of the constant uniforms\<close>

text \<open>
  Claim C8, as amended. In every run of \<^verbatim>\<open>init\<close> that reaches its end, the calls that
  touch the driver's current program are three brackets \<^verbatim>\<open>use\<close> ... \<^verbatim>\<open>stopusing\<close>, one per
  program, and every uniform write lies inside the bracket of the program from which
  its location was resolved, so that this program is the active one when the write
  executes. The writes are: 0 to the plain-texture program's \<^verbatim>\<open>texture\<close>; 0 to the
  team-colour program's \<^verbatim>\<open>texture\<close>, 254/255 to its \<^verbatim>\<open>alpha_marker\<close> and one upload of
  count 64 to its \<^verbatim>\<open>player_color\<close>; 0 and 1 to the alpha-mask program's \<^verbatim>\<open>base_texture\<close>
  and \<^verbatim>\<open>mask_texture\<close>. The array handed to the upload is the converted player-colour
  table, which has four floats for each loaded palette entry and nothing more. When
  at least 64 entries were loaded, the 64 vectors the upload reads all lie inside the
  table and vector \<open>k\<close> is the normalized colour of the \<open>k\<close>-th loaded entry: the upload
  is then the 64 by 4 table of the claim.
\<close>

theorem uniform_seeding_bracketed:
  assumes "init env s0 = Inr s"
  shows "\<exists>rows texture tc_texture alpha_marker player_color base_texture mask_texture.
    player_color_rows env = Some rows \<and>
    uniform_location env Texture_shader ''texture'' = Some texture \<and>
    uniform_location env Teamcolor_shader ''texture'' = Some tc_texture \<and>
    uniform_location env Teamcolor_shader ''alpha_marker'' = Some alpha_marker \<and>
    uniform_location env Teamcolor_shader ''player_color'' = Some player_color \<and>
    uniform_location env Alphamask_shader ''base_texture'' = Some base_texture \<and>
    uniform_location env Alphamask_shader ''mask_texture'' = Some mask_texture \<and>
    filter gl_state_event (drop (length (log s0)) (log s)) =
      [Use Texture_shader, GlUniform1i texture 0, StopUsing Texture_shader,
       Use Teamcolor_shader, GlUniform1i tc_texture 0, GlUniform1f alpha_marker (254 / 255),
       GlUniform4fv player_color 64 (convert_player_colors rows), StopUsing Teamcolor_shader,
       Use Alphamask_shader, GlUniform1i base_texture 0, GlUniform1i mask_texture 1,
       StopUsing Alphamask_shader] \<and>
    uniform_writes None (drop (length (log s0)) (log s)) =
      [(Some Texture_shader, GlUniform1i texture 0),
       (Some Teamcolor_shader, GlUniform1i tc_texture 0),
       (Some Teamcolor_shader, GlUniform1f alpha_marker (254 / 255)),
       (Some Teamcolor_shader, GlUniform4fv player_color 64 (convert_player_colors rows)),
       (Some Alphamask_shader, GlUniform1i base_texture 0),
       (Some Alphamask_shader, GlUniform1i mask_texture 1)] \<and>
    length (convert_player_colors rows) = length rows * 4 \<and>
    (64 \<le> length rows \<longrightarrow>
       reads_past_end 64 (convert_player_colors rows) = [] \<and>
       (\<forall>k<64. slot (convert_player_colors rows) k = Some (normalized (rows ! k))))"
proof -
  from init_new_events [OF assms] obtain tt bm rows where
    r: "player_color_rows env = Some rows" and ok: "shaders_ok env" and
    d: "drop (length (log s0)) (log s) = init_trace env tt bm rows"
    by blast
  note u = shaders_ok_uniforms [OF ok]
  have f: "filter gl_state_event (drop (length (log s0)) (log s)) =
      [Use Texture_shader, GlUniform1i (uniform_id env Texture_shader ''texture'') 0,
       StopUsing Texture_shader,
       Use Teamcolor_shader, GlUniform1i (uniform_id env Teamcolor_shader ''texture'') 0,
       GlUniform1f (uniform_id env Teamcolor_shader ''alpha_marker'') (254 / 255),
       GlUniform4fv (uniform_id env Teamcolor_shader ''player_color'') 64
         (convert_player_colors rows),
       StopUsing Teamcolor_shader,
       Use Alphamask_shader, GlUniform1i (uniform_id env Alphamask_shader ''base_texture'') 0,
       GlUniform1i (uniform_id env Alphamask_shader ''mask_texture'') 1,
       StopUsing Alphamask_shader]"
    by (simp only: d gl_state_init_trace)
  have w: "uniform_writes None (drop (length (log s0)) (log s)) =
      [(Some Texture_shader, GlUniform1i (uniform_id env Texture_shader ''texture'') 0),
       (Some Teamcolor_shader, GlUniform1i (uniform_id env Teamcolor_shader ''texture'') 0),
       (Some Teamcolor_shader,
          GlUniform1f (uniform_id env Teamcolor_shader ''alpha_marker'') (254 / 255)),
       (Some Teamcolor_shader,
          GlUniform4fv (uniform_id env Teamcolor_shader ''player_color'') 64
            (convert_player_colors rows)),
       (Some Alphamask_shader, GlUniform1i (uniform_id env Alphamask_shader ''base_texture'') 0),
       (Some Alphamask_shader, GlUniform1i (uniform_id env Alphamask_shader ''mask_texture'') 1)]"
    by (subst uniform_writes_filter) (simp add: f)
  have n: "length (convert_player_colors rows) = length rows * 4"
    by (rule convert_player_colors_length)
  have t: "64 \<le> length rows \<longrightarrow>
       reads_past_end 64 (convert_player_colors rows) = [] \<and>
       (\<forall>k<64. slot (convert_player_colors rows) k = Some (normalized (rows ! k)))"
    by (simp add: reads_past_end_upt convert_player_colors_length convert_player_colors_slot)
  from r u f w n t show ?thesis by blast
qed

text \<open>Two runs in the sample world, where a name's location is the length of the name.
  With the one palette line \<^verbatim>\<open>0=0,0,255,255\<close> the six writes are these. With that line
  64 times the table has 256 floats, the upload reads nothing beyond it, and its last
  vector is the colour of the line.\<close>

theorem uniform_seeding_bracketed_witness:
  "(\<exists>s. init (sample_env 9 [''0=0,0,255,255'']) (initial_state 0) = Inr s \<and>
     uniform_writes None (log s) =
      [(Some Texture_shader, GlUniform1i 7 0),
       (Some Teamcolor_shader, GlUniform1i 7 0),
       (Some Teamcolor_shader, GlUniform1f 12 (254 / 255)),
       (Some Teamcolor_shader, GlUniform4fv 12 64 [0, 0, 1, 1]),
       (Some Alphamask_shader, GlUniform1i 12 0),
       (Some Alphamask_shader, GlUniform1i 12 1)]) \<and>
   (\<exists>s. init (sample_env 9 (replicate 64 ''0=0,0,255,255'')) (initial_state 0) = Inr s \<and>
     uniform_writes None (log s) =
      [(Some Texture_shader, GlUniform1i 7 0),
       (Some Teamcolor_shader, GlUniform1i 7 0),
       (Some Teamcolor_shader, GlUniform1f 12 (254 / 255)),
       (Some Teamcolor_shader,
          GlUniform4fv 12 64
            (convert_player_colors
               (replicate 64 \<lparr>idx = 0, col_r = 0, col_g = 0, col_b = 255, col_a = 255\<rparr>))),
       (Some Alphamask_shader, GlUniform1i 12 0),
       (Some Alphamask_shader, GlUniform1i 12 1)] \<and>
     length (convert_player_colors
        (replicate 64 \<lparr>idx = 0, col_r = 0, col_g = 0, col_b = 255, col_a = 255\<rparr>)) = 256 \<and>
     reads_past_end 64 (convert_player_colors
        (replicate 64 \<lparr>idx = 0, col_r = 0, col_g = 0, col_b = 255, col_a = 255\<rparr>)) = [] \<and>
     slot (convert_player_colors
        (replicate 64 \<lparr>idx = 0, col_r = 0, col_g = 0, col_b = 255, col_a = 255\<rparr>)) 63 =
       Some (0, 0, 1, 1))"
proof -
  have l: "fill_line ''0=0,0,255,255'' =
      Some \<lparr>idx = 0, col_r = 0, col_g = 0, col_b = 255, col_a = 255\<rparr>"
    by (simp add: fill_line_def fill_def player_color_format_def scan_uint_def isspace_def
        isdigit_def decimal_value_def digit_value_def)
  have p: "fill_lines [''0=0,0,255,255''] =
      Some [\<lparr>idx = 0, col_r = 0, col_g = 0, col_b = 255, col_a = 255\<rparr>]"
    by (simp add: l)
  from sample_init_succeeds [OF p] obtain s where
    s: "init (sample_env 9 [''0=0,0,255,255'']) (initial_state 0) = Inr s" by blast
  have c: "convert_player_colors [\<lparr>idx = 0, col_r = 0, col_g = 0, col_b = 255, col_a = 255\<rparr>] =
      [0, 0, 1, 1]"
    by code_simp
  from uniform_seeding_bracketed [OF s] p c
  have "uniform_writes None (drop (length (log (initial_state 0))) (log s)) =
      [(Some Texture_shader, GlUniform1i 7 0),
       (Some Teamcolor_shader, GlUniform1i 7 0),
       (Some Teamcolor_shader, GlUniform1f 12 (254 / 255)),
       (Some Teamcolor_shader, GlUniform4fv 12 64 [0, 0, 1, 1]),
       (Some Alphamask_shader, GlUniform1i 12 0),
       (Some Alphamask_shader, GlUniform1i 12 1)]"
    by (auto simp: sample_env_def player_color_rows_def)
  with s have 1: "\<exists>s. init (sample_env 9 [''0=0,0,255,255'']) (initial_state 0) = Inr s \<and>
     uniform_writes None (log s) =
      [(Some Texture_shader, GlUniform1i 7 0),
       (Some Teamcolor_shader, GlUniform1i 7 0),
       (Some Teamcolor_shader, GlUniform1f 12 (254 / 255)),
       (Some Teamcolor_shader, GlUniform4fv 12 64 [0, 0, 1, 1]),
       (Some Alphamask_shader, GlUniform1i 12 0),
       (Some Alphamask_shader, GlUniform1i 12 1)]"
    by (auto simp: initial_state_def)
  let ?row = "\<lparr>idx = 0, col_r = 0, col_g = 0, col_b = 255, col_a = 255\<rparr>"
  let ?env = "sample_env 9 (replicate 64 ''0=0,0,255,255'')"
  have p64: "fill_lines (replicate 64 ''0=0,0,255,255'') = Some (replicate 64 ?row)"
    by (rule fill_lines_replicate [OF l])
  then have r64: "player_color_rows ?env = Some (replicate 64 ?row)"
    by (simp add: sample_env_def player_color_rows_def)
  from sample_init_succeeds [OF p64] obtain t where
    t: "init ?env (initial_state 0) = Inr t" by blast
  from uniform_seeding_bracketed [OF t] r64 have
    g: "uniform_writes None (drop (length (log (initial_state 0))) (log t)) =
      [(Some Texture_shader, GlUniform1i 7 0),
       (Some Teamcolor_shader, GlUniform1i 7 0),
       (Some Teamcolor_shader, GlUniform1f 12 (254 / 255)),
       (Some Teamcolor_shader,
          GlUniform4fv 12 64 (convert_player_colors (replicate 64 ?row))),
       (Some Alphamask_shader, GlUniform1i 12 0),
       (Some Alphamask_shader, GlUniform1i 12 1)]" and
    n: "length (convert_player_colors (replicate 64 ?row)) = length (replicate 64 ?row) * 4" and
    full: "64 \<le> length (replicate 64 ?row) \<longrightarrow>
       reads_past_end 64 (convert_player_colors (replicate 64 ?row)) = [] \<and>
       (\<forall>k<64. slot (convert_player_colors (replicate 64 ?row)) k =
          Some (normalized (replicate 64 ?row ! k)))"
    by (auto simp: sample_env_def)
  from g have u: "uniform_writes None (log t) =
      [(Some Texture_shader, GlUniform1i 7 0),
       (Some Teamcolor_shader, GlUniform1i 7 0),
       (Some Teamcolor_shader, GlUniform1f 12 (254 / 255)),
       (Some Teamcolor_shader,
          GlUniform4fv 12 64 (convert_player_colors (replicate 64 ?row))),
       (Some Alphamask_shader, GlUniform1i 12 0),
       (Some Alphamask_shader, GlUniform1i 12 1)]"
    by (simp add: initial_state_def)
  from full have e: "reads_past_end 64 (convert_player_colors (replicate 64 ?row)) = []"
    and sl: "slot (convert_player_colors (replicate 64 ?row)) 63 =
       Some (normalized (replicate 64 ?row ! 63))"
    by simp_all
  have v: "normalized (replicate 64 ?row ! 63) = (0, 0, 1, 1)"
    by (simp add: normalized_def normalize_def)
  from t u n e sl v have 2:
    "\<exists>s. init ?env (initial_state 0) = Inr s \<and>
     uniform_writes None (log s) =
      [(Some Texture_shader, GlUniform1i 7 0),
       (Some Teamcolor_shader, GlUniform1i 7 0),
       (Some Teamcolor_shader, GlUniform1f 12 (254 / 255)),
       (Some Teamcolor_shader,
          GlUniform4fv 12 64 (convert_player_colors (replicate 64 ?row))),
       (Some Alphamask_shader, GlUniform1i 12 0),
       (Some Alphamask_shader, GlUniform1i 12 1)] \<and>
     length (convert_player_colors (replicate 64 ?row)) = 256 \<and>
     reads_past_end 64 (convert_player_colors (replicate 64 ?row)) = [] \<and>
     slot (convert_player_colors (replicate 64 ?row)) 63 = Some (0, 0, 1, 1)"
    by simp
  from 1 2 show ?thesis by (rule conjI)
qed

text \<open>Where the claim as first stated fails: the palette has the one line
  \<^verbatim>\<open>0=0,0,255,255\<close>, \<^verbatim>\<open>init\<close> runs to its end, and the array handed to the one upload has
  4 floats, not 64 times 4; the cells 4 to 255 that the upload reads are not part of
  any table.\<close>

theorem uniform_seeding_table_counterexample:
  "succeeded (init (sample_env 9 [''0=0,0,255,255'']) (initial_state 0)) \<and>
   (case init (sample_env 9 [''0=0,0,255,255'']) (initial_state 0) of
      Inl e \<Rightarrow> False
    | Inr s \<Rightarrow> filter is_upload (log s) = [GlUniform4fv 12 64 [0, 0, 1, 1]]) \<and>
   length [0, 0, 1, 1 :: real] = 4 \<and> 4 \<noteq> 64 * (4 :: nat) \<and>
   reads_past_end 64 [0, 0, 1, 1] = [4..<256] \<and>
   slot [0, 0, 1, 1] 1 = None"
proof -
  have p: "fill_lines [''0=0,0,255,255''] =
      Some [\<lparr>idx = 0, col_r = 0, col_g = 0, col_b = 255, col_a = 255\<rparr>]"
    by (simp add: fill_line_def fill_def player_color_format_def scan_uint_def isspace_def
        isdigit_def decimal_value_def digit_value_def)
  from sample_init_succeeds [OF p] obtain s where
    s: "init (sample_env 9 [''0=0,0,255,255'']) (initial_state 0) = Inr s" by blast
  from init_new_events [OF s] obtain tt bm rows where
    r: "player_color_rows (sample_env 9 [''0=0,0,255,255'']) = Some rows" and
    l: "log s = log (initial_state 0) @ init_trace (sample_env 9 [''0=0,0,255,255'']) tt bm rows"
    by blast
  from r p have rows: "rows = [\<lparr>idx = 0, col_r = 0, col_g = 0, col_b = 255, col_a = 255\<rparr>]"
    by (simp add: sample_env_def player_color_rows_def)
  have c: "convert_player_colors [\<lparr>idx = 0, col_r = 0, col_g = 0, col_b = 255, col_a = 255\<rparr>] =
      [0, 0, 1, 1]"
    by code_simp
  have u: "filter is_upload (log s) = [GlUniform4fv 12 64 [0, 0, 1, 1]]"
    unfolding l by (simp add: initial_state_def upload_init_trace rows c uniform_id_def sample_env_def)
  have k: "length [0, 0, 1, 1 :: real] = 4" "4 \<noteq> 64 * (4 :: nat)" by simp_all
  have "64 * 4 = (256 :: nat)" by simp
  then have o: "reads_past_end 64 [0, 0, 1, 1] = [4..<256]"
    by (simp only: reads_past_end_upt k)
  have n: "slot [0, 0, 1, 1] 1 = None" by (simp add: slot_def)
  have a: "succeeded (init (sample_env 9 [''0=0,0,255,255'']) (initial_state 0))"
    by (simp add: s succeeded_def)
  have b: "case init (sample_env 9 [''0=0,0,255,255'']) (initial_state 0) of
      Inl e \<Rightarrow> False
    | Inr s \<Rightarrow> filter is_upload (log s) = [GlUniform4fv 12 64 [0, 0, 1, 1]]"
    by (simp add: s u)
  from a b k o n show ?thesis by blast
qed

section \<open>Claim C9: the index field of the palette\<close>

text \<open>
  Claim C9, as amended. Neither the loading nor the conversion of the palette looks
  at the value of an entry's index. \<^verbatim>\<open>fill\<close> accepts a line exactly when five values
  are converted from it, so the only palette failure is a malformed line; the
  conversion gives the same table whatever the index fields hold; and \<^verbatim>\<open>init\<close> runs
  to its end exactly when the tables load (more than 20 terrain types), every palette
  line has five values, and the shader initialisation meets no failure. An entry with
  index 64, or 4294967295, is accepted like any other.
\<close>

theorem palette_index_unchecked:
  "(fst (fill by_line this) = 0 \<longleftrightarrow> length (sscanf player_color_format by_line) = 5) \<and>
   (fill_line by_line \<noteq> None \<longleftrightarrow> length (sscanf player_color_format by_line) = 5) \<and>
   (player_color_rows env \<noteq> None \<longleftrightarrow>
      (\<exists>lines. player_color_palette env = Some lines \<and>
         list_all (\<lambda>l. length (sscanf player_color_format l) = 5) lines)) \<and>
   convert_player_colors (map (\<lambda>l. l\<lparr>idx := f l\<rparr>) rows) = convert_player_colors rows \<and>
   ((\<exists>s. init env s0 = Inr s) \<longleftrightarrow> env_ok env) \<and>
   fill_line ''64=0,0,0,255'' =
     Some \<lparr>idx = 64, col_r = 0, col_g = 0, col_b = 0, col_a = 255\<rparr> \<and>
   fill_line ''4294967295=0,0,0,255'' =
     Some \<lparr>idx = 4294967295, col_r = 0, col_g = 0, col_b = 0, col_a = 255\<rparr>"
proof -
  have 1: "fill_line ''64=0,0,0,255'' =
     Some \<lparr>idx = 64, col_r = 0, col_g = 0, col_b = 0, col_a = 255\<rparr>"
    by (simp add: fill_line_def fill_def player_color_format_def scan_uint_def isspace_def
        isdigit_def decimal_value_def digit_value_def)
  have 2: "fill_line ''4294967295=0,0,0,255'' =
     Some \<lparr>idx = 4294967295, col_r = 0, col_g = 0, col_b = 0, col_a = 255\<rparr>"
    by (simp add: fill_line_def fill_def player_color_format_def scan_uint_def isspace_def
        isdigit_def decimal_value_def digit_value_def)
  from fill_result fill_line_accepts player_color_rows_accepts convert_player_colors_idx
    init_succeeds_iff 1 2
  show ?thesis by blast
qed

text \<open>The sample world with the palette line \<^verbatim>\<open>64=0,0,0,255\<close> meets the conditions, and
  \<^verbatim>\<open>init\<close> runs to its end in it.\<close>

theorem palette_index_unchecked_witness:
  "env_ok (sample_env 9 [''64=0,0,0,255'']) \<and>
   (\<exists>s. init (sample_env 9 [''64=0,0,0,255'']) (initial_state 0) = Inr s)"
proof -
  have p: "fill_lines [''64=0,0,0,255''] =
     Some [\<lparr>idx = 64, col_r = 0, col_g = 0, col_b = 0, col_a = 255\<rparr>]"
    by (simp add: fill_line_def fill_def player_color_format_def scan_uint_def isspace_def
        isdigit_def decimal_value_def digit_value_def)
  have ok: "env_ok (sample_env 9 [''64=0,0,0,255''])" by (rule sample_env_ok [OF p])
  from palette_index_unchecked [of _ _ "sample_env 9 [''64=0,0,0,255'']" _ _ "initial_state 0"]
  have "(\<exists>s. init (sample_env 9 [''64=0,0,0,255'']) (initial_state 0) = Inr s) \<longleftrightarrow>
      env_ok (sample_env 9 [''64=0,0,0,255''])" by blast
  with ok show ?thesis by blast
qed

text \<open>Where the claim as first stated fails: the palette line \<^verbatim>\<open>64=0,0,0,255\<close> is
  loaded with index 64, \<^verbatim>\<open>init\<close> runs to its end, and the colour of that entry is in
  the table it uploads.\<close>

theorem palette_index_64_accepted_counterexample:
  "player_color_rows (sample_env 9 [''64=0,0,0,255'']) =
     Some [\<lparr>idx = 64, col_r = 0, col_g = 0, col_b = 0, col_a = 255\<rparr>] \<and>
   succeeded (init (sample_env 9 [''64=0,0,0,255'']) (initial_state 0)) \<and>
   (case init (sample_env 9 [''64=0,0,0,255'']) (initial_state 0) of
      Inl e \<Rightarrow> False
    | Inr s \<Rightarrow> filter is_upload (log s) = [GlUniform4fv 12 64 [0, 0, 0, 1]])"
proof -
  have p: "fill_lines [''64=0,0,0,255''] =
     Some [\<lparr>idx = 64, col_r = 0, col_g = 0, col_b = 0, col_a = 255\<rparr>]"
    by (simp add: fill_line_def fill_def player_color_format_def scan_uint_def isspace_def
        isdigit_def decimal_value_def digit_value_def)
  then have r: "player_color_rows (sample_env 9 [''64=0,0,0,255'']) =
     Some [\<lparr>idx = 64, col_r = 0, col_g = 0, col_b = 0, col_a = 255\<rparr>]"
    by (simp add: player_color_rows_def sample_env_def)
  from sample_init_succeeds [OF p] obtain s where
    s: "init (sample_env 9 [''64=0,0,0,255'']) (initial_state 0) = Inr s" by blast
  have c: "convert_player_colors [\<lparr>idx = 64, col_r = 0, col_g = 0, col_b = 0, col_a = 255\<rparr>] =
      [0, 0, 0, 1]"
    by code_simp
  from init_new_events [OF s] r obtain tt bm where
    "log s = log (initial_state 0) @ init_trace (sample_env 9 [''64=0,0,0,255'']) tt bm
       [\<lparr>idx = 64, col_r = 0, col_g = 0, col_b = 0, col_a = 255\<rparr>]"
    by auto
  then have "filter is_upload (log s) = [GlUniform4fv 12 64 [0, 0, 0, 1]]"
    by (simp add: initial_state_def upload_init_trace c)
       (simp add: uniform_id_def sample_env_def)
  with r s show ?thesis by (simp add: succeeded_def)
qed

section \<open>Claim C10: the upload of the player-colour table\<close>

text \<open>
  Claim C10. In every run of \<^verbatim>\<open>init\<close> that reaches its end there is exactly one
  \<^verbatim>\<open>glUniform4fv\<close> call; its count is 64 whatever the number of loaded palette
  entries, and its source is the staging array, which was allocated with, and has,
  \<open>pcolor_count * 4\<close> cells. The call reads the cells 0 to 255, so the cells from
  \<open>pcolor_count * 4\<close> to 255 that it reads lie beyond the end of the array: there
  are such cells whenever fewer than 64 entries were loaded, and none otherwise.
\<close>

theorem player_color_upload_overrun:
  assumes "init env s0 = Inr s"
  shows "\<exists>rows loc.
    player_color_rows env = Some rows \<and>
    uniform_location env Teamcolor_shader ''player_color'' = Some loc \<and>
    filter is_upload (drop (length (log s0)) (log s)) =
      [GlUniform4fv loc 64 (convert_player_colors rows)] \<and>
    NewFloatArray (length rows * 4) \<in> set (drop (length (log s0)) (log s)) \<and>
    length (convert_player_colors rows) = length rows * 4 \<and>
    reads_past_end 64 (convert_player_colors rows) = [length rows * 4..<256] \<and>
    (length rows < 64 \<longrightarrow> reads_past_end 64 (convert_player_colors rows) \<noteq> []) \<and>
    (64 \<le> length rows \<longrightarrow> reads_past_end 64 (convert_player_colors rows) = [])"
proof -
  from init_new_events [OF assms] obtain tt bm rows where
    r: "player_color_rows env = Some rows" and ok: "shaders_ok env" and
    d: "drop (length (log s0)) (log s) = init_trace env tt bm rows"
    by blast
  have u: "uniform_location env Teamcolor_shader ''player_color'' =
      Some (uniform_id env Teamcolor_shader ''player_color'')"
    by (rule shaders_ok_uniforms [OF ok])
  have f: "filter is_upload (drop (length (log s0)) (log s)) =
      [GlUniform4fv (uniform_id env Teamcolor_shader ''player_color'') 64
         (convert_player_colors rows)]"
    by (simp only: d upload_init_trace)
  have a: "NewFloatArray (length rows * 4) \<in> set (drop (length (log s0)) (log s))"
    unfolding d by (simp add: init_trace_def player_color_trace_def)
  have p: "reads_past_end 64 (convert_player_colors rows) = [length rows * 4..<256]"
    by (simp add: reads_past_end_upt convert_player_colors_length)
  have "length rows < 64 \<longrightarrow> reads_past_end 64 (convert_player_colors rows) \<noteq> []"
    "64 \<le> length rows \<longrightarrow> reads_past_end 64 (convert_player_colors rows) = []"
    unfolding p by simp_all
  with r u f a p convert_player_colors_length [of rows] show ?thesis by blast
qed

text \<open>A palette of one line: the staging array has 4 cells, and the upload reads the
  252 cells from 4 to 255 beyond it.\<close>

theorem player_color_upload_overrun_witness:
  "\<exists>s. init (sample_env 9 [''0=0,0,255,255'']) (initial_state 0) = Inr s \<and>
     filter is_upload (log s) = [GlUniform4fv 12 64 [0, 0, 1, 1]] \<and>
     reads_past_end 64 [0, 0, 1, 1] = [4..<256]"
proof -
  have p: "fill_lines [''0=0,0,255,255''] =
      Some [\<lparr>idx = 0, col_r = 0, col_g = 0, col_b = 255, col_a = 255\<rparr>]"
    by (simp add: fill_line_def fill_def player_color_format_def scan_uint_def isspace_def
        isdigit_def decimal_value_def digit_value_def)
  from sample_init_succeeds [OF this] obtain s where
    s: "init (sample_env 9 [''0=0,0,255,255'']) (initial_state 0) = Inr s" by blast
  have c: "convert_player_colors [\<lparr>idx = 0, col_r = 0, col_g = 0, col_b = 255, col_a = 255\<rparr>] =
      [0, 0, 1, 1]"
    by code_simp
  from player_color_upload_overrun [OF s] p c
  have "filter is_upload (drop (length (log (initial_state 0))) (log s)) =
      [GlUniform4fv 12 64 [0, 0, 1, 1]] \<and>
     reads_past_end 64 [0, 0, 1, 1] = [4..<256]"
    by (auto simp: sample_env_def player_color_rows_def)
  with s show ?thesis by (auto simp: initial_state_def)
qed

end
